theory Spec2Isabelle
  imports Complex_Main
begin

section \<open>Python values, objects and the store\<close>

text \<open>
  The package AlloLLMEval is a thin orchestration layer: configuration dictionaries,
  two abstract collaborator classes, and a runner that calls them. Its behaviour depends
  on object identity (a merged configuration is a new object, \<open>x or {}\<close> builds a new
  dictionary), on run-time classes (\<open>isinstance\<close>) and on truthiness, so values are
  modelled with an explicit store: immediate values, and references to objects held in
  a heap.
\<close>

type_synonym addr = nat

text \<open>\<open>class MetricStatus(Enum)\<close> of \<open>core/metrics.py\<close>.\<close>

datatype MetricStatus = PASSED | WARNING | FAILED | INCONCLUSIVE

fun MetricStatus_value :: "MetricStatus \<Rightarrow> string" where
  "MetricStatus_value PASSED = ''passed''"
| "MetricStatus_value WARNING = ''warning''"
| "MetricStatus_value FAILED = ''failed''"
| "MetricStatus_value INCONCLUSIVE = ''inconclusive''"

text \<open>
  Classes: the built-in ones the code meets, the classes of the package, and classes
  defined by the package's users (\<open>CUser\<close>, by name).
\<close>

datatype cls =
    CObject | CNoneType | CBool | CInt | CFloat | CStr | CType | CDict | CList | CDatetime
  | CMetricStatus | CMetricOutput | CTestConfig | CTestResult | CTestRunner
  | CPromptExecutorBase | CMetricEvaluatorBase
  | CUser string

text \<open>
  A finite float is modelled by the real number it denotes (the package does no float
  arithmetic). \<open>PClass\<close> is a class used as a value, as in a schema \<open>{"n": int}\<close>.
\<close>

datatype pyval =
    PNone
  | PBool bool
  | PInt int
  | PFloat real
  | PStr string
  | PClass cls
  | PEnum MetricStatus
  | PDatetime nat
  | PRef addr

text \<open>
  A dictionary holds its items in insertion order; its keys are strings, as every
  dictionary of the package is annotated \<open>Dict[str, Any]\<close>. An instance holds its class
  and its attributes.
\<close>

type_synonym items = "(string \<times> pyval) list"

datatype pyobj =
    ODict items
  | OList "pyval list"
  | OInst cls items

type_synonym heap = "pyobj list"

datatype exn =
    ValueError string
  | TypeError string
  | AttributeError string
  | NotImplementedError
  | OtherError string string

text \<open>
  The state: the heap (an address is an index, allocation appends), a logical clock
  read by \<open>datetime.now()\<close>, and the log of the calls the runner has made to its
  collaborators, each with its arguments and its outcome. Beside the log, and in the
  same order, \<open>snapshots\<close> keeps for each logged call the heap it was called on and the
  heap it left.
\<close>

type_synonym call = "string \<times> pyval list \<times> (exn + pyval)"

record state =
  heap :: heap
  clock :: nat
  calls :: "call list"
  snapshots :: "(heap \<times> heap) list"

text \<open>A computation returns a value or raises, and may change the state.\<close>

type_synonym 'a py = "state \<Rightarrow> (exn + 'a) \<times> state"

definition returnE :: "'a \<Rightarrow> 'a py" where
  "returnE x s = (Inr x, s)"

definition raiseE :: "exn \<Rightarrow> 'a py" where
  "raiseE e s = (Inl e, s)"

definition bindE :: "'a py \<Rightarrow> ('a \<Rightarrow> 'b py) \<Rightarrow> 'b py" where
  "bindE m f s = (case m s of (Inl e, s') \<Rightarrow> (Inl e, s') | (Inr x, s') \<Rightarrow> f x s')"

text \<open>
  A method of a user's class is any computation over its arguments (\<open>self\<close> first).
  A user's class gives its ancestors in method resolution order (the class itself
  left out) and the methods its body defines.
\<close>

type_synonym pymethod = "pyval list \<Rightarrow> pyval py"

record user_class =
  mro :: "cls list"
  methods :: "string \<Rightarrow> pymethod option"

text \<open>
  The environment of the package: the classes defined outside it, and
  \<open>datetime.isoformat\<close> of the standard library.
\<close>

record env =
  classes :: "string \<Rightarrow> user_class"
  isoformat :: "nat \<Rightarrow> string"

subsection \<open>Store access\<close>

text \<open>
  A reference outside the heap cannot arise in Python; it is read as a bare
  \<open>object()\<close>, so that every function below is total.
\<close>

definition obj_at :: "heap \<Rightarrow> addr \<Rightarrow> pyobj" where
  "obj_at h a = (if a < length h then h ! a else OInst CObject [])"

definition alloc :: "pyobj \<Rightarrow> pyval py" where
  "alloc ob s = (Inr (PRef (length (heap s))), s\<lparr>heap := heap s @ [ob]\<rparr>)"

definition get_state :: "state py" where
  "get_state s = (Inr s, s)"

subsection \<open>Classes, \<open>isinstance\<close>, truthiness, attributes\<close>

fun class_of :: "heap \<Rightarrow> pyval \<Rightarrow> cls" where
  "class_of h PNone = CNoneType"
| "class_of h (PBool b) = CBool"
| "class_of h (PInt i) = CInt"
| "class_of h (PFloat x) = CFloat"
| "class_of h (PStr s) = CStr"
| "class_of h (PClass c) = CType"
| "class_of h (PEnum m) = CMetricStatus"
| "class_of h (PDatetime t) = CDatetime"
| "class_of h (PRef a) =
     (case obj_at h a of ODict d \<Rightarrow> CDict | OList xs \<Rightarrow> CList | OInst c attrs \<Rightarrow> c)"

fun class_name :: "cls \<Rightarrow> string" where
  "class_name CObject = ''object''"
| "class_name CNoneType = ''NoneType''"
| "class_name CBool = ''bool''"
| "class_name CInt = ''int''"
| "class_name CFloat = ''float''"
| "class_name CStr = ''str''"
| "class_name CType = ''type''"
| "class_name CDict = ''dict''"
| "class_name CList = ''list''"
| "class_name CDatetime = ''datetime''"
| "class_name CMetricStatus = ''MetricStatus''"
| "class_name CMetricOutput = ''MetricOutput''"
| "class_name CTestConfig = ''TestConfig''"
| "class_name CTestResult = ''TestResult''"
| "class_name CTestRunner = ''TestRunner''"
| "class_name CPromptExecutorBase = ''PromptExecutorBase''"
| "class_name CMetricEvaluatorBase = ''MetricEvaluatorBase''"
| "class_name (CUser n) = n"

text \<open>\<open>type(x).__mro__\<close>: \<open>bool\<close> derives from \<open>int\<close>, every class from \<open>object\<close>.\<close>

fun mro_of :: "env \<Rightarrow> cls \<Rightarrow> cls list" where
  "mro_of E CObject = [CObject]"
| "mro_of E CBool = [CBool, CInt, CObject]"
| "mro_of E (CUser n) = CUser n # mro (classes E n)"
| "mro_of E c = [c, CObject]"

text \<open>
  \<open>isinstance(v, c)\<close> for a class \<open>c\<close>, and for any second argument: it must be a class
  (tuples of classes are not modelled), otherwise Python raises TypeError.
\<close>

definition is_instance :: "env \<Rightarrow> heap \<Rightarrow> pyval \<Rightarrow> cls \<Rightarrow> bool" where
  "is_instance E h v c = (c \<in> set (mro_of E (class_of h v)))"

definition isinstance :: "env \<Rightarrow> heap \<Rightarrow> pyval \<Rightarrow> pyval \<Rightarrow> exn + bool" where
  "isinstance E h v t =
     (case t of
        PClass c \<Rightarrow> Inr (is_instance E h v c)
      | _ \<Rightarrow> Inl (TypeError ''isinstance() arg 2 must be a type, a tuple of types, or a union''))"

text \<open>
  Truth value of an object, as \<open>not x\<close> and \<open>x or y\<close> test it. An instance is true:
  no class of the package defines \<open>__bool__\<close> or \<open>__len__\<close>.
\<close>

fun truthy :: "heap \<Rightarrow> pyval \<Rightarrow> bool" where
  "truthy h PNone = False"
| "truthy h (PBool b) = b"
| "truthy h (PInt i) = (i \<noteq> 0)"
| "truthy h (PFloat x) = (x \<noteq> 0)"
| "truthy h (PStr s) = (s \<noteq> [])"
| "truthy h (PClass c) = True"
| "truthy h (PEnum m) = True"
| "truthy h (PDatetime t) = True"
| "truthy h (PRef a) =
     (case obj_at h a of ODict d \<Rightarrow> d \<noteq> [] | OList xs \<Rightarrow> xs \<noteq> [] | OInst c attrs \<Rightarrow> True)"

text \<open>The data attribute \<open>name\<close> of a value, if it has one; only instances have any.\<close>

definition attr_of :: "heap \<Rightarrow> pyval \<Rightarrow> string \<Rightarrow> pyval option" where
  "attr_of h v name =
     (case v of
        PRef a \<Rightarrow> (case obj_at h a of OInst c attrs \<Rightarrow> map_of attrs name | _ \<Rightarrow> None)
      | _ \<Rightarrow> None)"

text \<open>Reading \<open>v.name\<close>.\<close>

definition getattr :: "pyval \<Rightarrow> string \<Rightarrow> pyval py" where
  "getattr v name s =
     (case attr_of (heap s) v name of
        Some x \<Rightarrow> (Inr x, s)
      | None \<Rightarrow> (Inl (AttributeError name), s))"

subsection \<open>Dictionaries\<close>

text \<open>\<open>d[k] = v\<close>: an existing key keeps its place, a new key goes last.\<close>

fun dict_setitem :: "items \<Rightarrow> string \<Rightarrow> pyval \<Rightarrow> items" where
  "dict_setitem [] k v = [(k, v)]"
| "dict_setitem ((k', v') # rest) k v =
     (if k' = k then (k', v) # rest else (k', v') # dict_setitem rest k v)"

text \<open>\<open>d.update(other)\<close>, which is what \<open>**other\<close> does inside a dictionary display.\<close>

definition dict_update :: "items \<Rightarrow> items \<Rightarrow> items" where
  "dict_update d other = fold (\<lambda>(k, v) acc. dict_setitem acc k v) other d"

text \<open>The items of the dictionary a value refers to, if it refers to one.\<close>

definition dict_of :: "heap \<Rightarrow> pyval \<Rightarrow> items option" where
  "dict_of h v =
     (case v of
        PRef a \<Rightarrow> (case obj_at h a of ODict d \<Rightarrow> Some d | _ \<Rightarrow> None)
      | _ \<Rightarrow> None)"

text \<open>Unpacking \<open>**v\<close> reads the items of a mapping and raises TypeError on any other value.\<close>

definition mapping_items :: "pyval \<Rightarrow> items py" where
  "mapping_items v s =
     (case dict_of (heap s) v of
        Some d \<Rightarrow> (Inr d, s)
      | None \<Rightarrow>
          (Inl (TypeError ([CHR 0x27] @ class_name (class_of (heap s) v) @ [CHR 0x27]
                           @ '' object is not a mapping'')), s))"

text \<open>
  Writing a data attribute \<open>v.name = x\<close>. Calling a class builds a bare instance and
  runs the initialiser on it.
\<close>

definition setattr :: "pyval \<Rightarrow> string \<Rightarrow> pyval \<Rightarrow> unit py" where
  "setattr v name x s =
     (case v of
        PRef a \<Rightarrow>
          (case obj_at (heap s) a of
             OInst c attrs \<Rightarrow>
               (Inr (), s\<lparr>heap := (heap s)[a := OInst c (dict_setitem attrs name x)]\<rparr>)
           | _ \<Rightarrow> (Inl (AttributeError name), s))
      | _ \<Rightarrow> (Inl (AttributeError name), s))"

definition construct :: "cls \<Rightarrow> (pyval \<Rightarrow> unit py) \<Rightarrow> pyval py" where
  "construct c init =
     bindE (alloc (OInst c [])) (\<lambda>self.
     bindE (init self) (\<lambda>_.
     returnE self))"

text \<open>\<open>datetime.now()\<close>: each reading advances the logical clock.\<close>

definition datetime_now :: "nat py" where
  "datetime_now s = (Inr (clock s), s\<lparr>clock := Suc (clock s)\<rparr>)"

section \<open>\<open>utils/validation.py\<close>\<close>

definition type_name :: "pyval \<Rightarrow> string" where
  "type_name t = (case t of PClass c \<Rightarrow> class_name c | _ \<Rightarrow> [])"

definition validate_type :: "env \<Rightarrow> pyval \<Rightarrow> pyval \<Rightarrow> pyval py" where
  "validate_type E v expected_type s =
     (case isinstance E (heap s) v expected_type of
        Inl e \<Rightarrow> (Inl e, s)
      | Inr ok \<Rightarrow>
          if \<not> ok then
            (Inl (TypeError (''Expected type '' @ type_name expected_type @ '', got ''
                             @ class_name (class_of (heap s) v))), s)
          else (Inr v, s))"


section \<open>\<open>core/base.py\<close>\<close>

definition PromptExecutorBase_validate_schema :: "env \<Rightarrow> pyval \<Rightarrow> unit py" where
  "PromptExecutorBase_validate_schema E self =
     bindE (getattr self ''config_schema'') (\<lambda>config_schema.
     bindE get_state (\<lambda>s.
     if \<not> is_instance E (heap s) config_schema CDict
     then raiseE (ValueError ''Config schema must be a dictionary'')
     else returnE ()))"

definition PromptExecutorBase_init :: "env \<Rightarrow> pyval \<Rightarrow> pyval \<Rightarrow> unit py" where
  "PromptExecutorBase_init E self config_schema =
     bindE (setattr self ''config_schema'' config_schema) (\<lambda>_.
     PromptExecutorBase_validate_schema E self)"

definition PromptExecutorBase_new :: "env \<Rightarrow> pyval \<Rightarrow> pyval py" where
  "PromptExecutorBase_new E config_schema =
     construct CPromptExecutorBase (\<lambda>self. PromptExecutorBase_init E self config_schema)"

text \<open>
  \<open>execute(self, input_data, config)\<close> of the base class. A call with another number of
  arguments raises TypeError before the body runs; the text of that message, which
  depends on the number given, is not modelled.
\<close>

definition PromptExecutorBase_execute :: pymethod where
  "PromptExecutorBase_execute args =
     (case args of
        [self, input_data, config] \<Rightarrow> raiseE NotImplementedError
      | _ \<Rightarrow> raiseE (TypeError ''execute() takes 3 positional arguments''))"

section \<open>\<open>core/metrics.py\<close>\<close>

text \<open>
  \<open>MetricOutput\<close> is a dataclass: its generated initialiser stores the five arguments
  and checks nothing.
\<close>

definition MetricOutput_init ::
  "pyval \<Rightarrow> pyval \<Rightarrow> pyval \<Rightarrow> pyval \<Rightarrow> pyval \<Rightarrow> pyval \<Rightarrow> unit py" where
  "MetricOutput_init self score status visualization details threshold =
     bindE (setattr self ''score'' score) (\<lambda>_.
     bindE (setattr self ''status'' status) (\<lambda>_.
     bindE (setattr self ''visualization'' visualization) (\<lambda>_.
     bindE (setattr self ''details'' details) (\<lambda>_.
     setattr self ''threshold'' threshold))))"

definition MetricOutput_new ::
  "pyval \<Rightarrow> pyval \<Rightarrow> pyval \<Rightarrow> pyval \<Rightarrow> pyval \<Rightarrow> pyval py" where
  "MetricOutput_new score status visualization details threshold =
     construct CMetricOutput
       (\<lambda>self. MetricOutput_init self score status visualization details threshold)"

definition MetricEvaluatorBase_validate_config :: "env \<Rightarrow> pyval \<Rightarrow> unit py" where
  "MetricEvaluatorBase_validate_config E self =
     bindE (getattr self ''config'') (\<lambda>config.
     bindE get_state (\<lambda>s.
     if \<not> is_instance E (heap s) config CDict
     then raiseE (ValueError ''Config must be a dictionary'')
     else returnE ()))"

definition MetricEvaluatorBase_init :: "env \<Rightarrow> pyval \<Rightarrow> pyval \<Rightarrow> unit py" where
  "MetricEvaluatorBase_init E self config =
     bindE (setattr self ''config'' config) (\<lambda>_.
     MetricEvaluatorBase_validate_config E self)"

definition MetricEvaluatorBase_new :: "env \<Rightarrow> pyval \<Rightarrow> pyval py" where
  "MetricEvaluatorBase_new E config =
     construct CMetricEvaluatorBase (\<lambda>self. MetricEvaluatorBase_init E self config)"

text \<open>
  \<open>evaluate(self, executor, input_data, base_output, executor_config, test_config,
  evaluation_params)\<close> of the base class. A call with another number of arguments raises
  TypeError before the body runs; the text of that message is not modelled.
\<close>

definition MetricEvaluatorBase_evaluate :: pymethod where
  "MetricEvaluatorBase_evaluate args =
     (case args of
        [self, executor, input_data, base_output, executor_config, test_config,
         evaluation_params] \<Rightarrow> raiseE NotImplementedError
      | _ \<Rightarrow> raiseE (TypeError ''evaluate() takes 7 positional arguments''))"

section \<open>Method resolution and calls to collaborators\<close>

text \<open>
  The method a class body defines under a name. Of the package's classes only the two
  methods the runner looks up at run time are listed.
\<close>

definition own_method :: "env \<Rightarrow> cls \<Rightarrow> string \<Rightarrow> pymethod option" where
  "own_method E c name =
     (case c of
        CUser n \<Rightarrow> methods (classes E n) name
      | CPromptExecutorBase \<Rightarrow>
          if name = ''execute'' then Some PromptExecutorBase_execute else None
      | CMetricEvaluatorBase \<Rightarrow>
          if name = ''evaluate'' then Some MetricEvaluatorBase_evaluate else None
      | _ \<Rightarrow> None)"

fun find_method :: "env \<Rightarrow> cls list \<Rightarrow> string \<Rightarrow> pymethod option" where
  "find_method E [] name = None"
| "find_method E (c # cs) name =
     (case own_method E c name of Some m \<Rightarrow> Some m | None \<Rightarrow> find_method E cs name)"

text \<open>\<open>v.name\<close> for a method: the first class of \<open>type(v).__mro__\<close> that defines it.\<close>

definition lookup_method :: "env \<Rightarrow> pyval \<Rightarrow> string \<Rightarrow> pymethod py" where
  "lookup_method E v name s =
     (case find_method E (mro_of E (class_of (heap s) v)) name of
        Some m \<Rightarrow> (Inr m, s)
      | None \<Rightarrow> (Inl (AttributeError name), s))"

text \<open>
  The runner calling a collaborator's method: the call, its arguments and its outcome
  are appended to the log, and the heaps before and after it to the snapshots, whatever
  the method did to the state.
\<close>

definition invoke :: "string \<Rightarrow> pymethod \<Rightarrow> pyval list \<Rightarrow> pyval py" where
  "invoke name m args s =
     (case m args s of
        (r, s') \<Rightarrow>
          (r, s'\<lparr>calls := calls s @ [(name, args, r)],
                 snapshots := snapshots s @ [(heap s, heap s')]\<rparr>))"

section \<open>\<open>core/test_runner.py\<close>\<close>

text \<open>The dataclasses \<open>TestConfig\<close> and \<open>TestResult\<close>: the generated initialisers store the fields.\<close>

definition TestConfig_init :: "pyval \<Rightarrow> pyval \<Rightarrow> pyval \<Rightarrow> unit py" where
  "TestConfig_init self executor_config metric_config =
     bindE (setattr self ''executor_config'' executor_config) (\<lambda>_.
     setattr self ''metric_config'' metric_config)"

definition TestConfig_new :: "pyval \<Rightarrow> pyval \<Rightarrow> pyval py" where
  "TestConfig_new executor_config metric_config =
     construct CTestConfig (\<lambda>self. TestConfig_init self executor_config metric_config)"

definition TestResult_init ::
  "pyval \<Rightarrow> pyval \<Rightarrow> pyval \<Rightarrow> pyval \<Rightarrow> pyval \<Rightarrow> pyval \<Rightarrow> unit py" where
  "TestResult_init self metric_output executor_output configs_used metadata timestamp =
     bindE (setattr self ''metric_output'' metric_output) (\<lambda>_.
     bindE (setattr self ''executor_output'' executor_output) (\<lambda>_.
     bindE (setattr self ''configs_used'' configs_used) (\<lambda>_.
     bindE (setattr self ''metadata'' metadata) (\<lambda>_.
     setattr self ''timestamp'' timestamp))))"

definition TestResult_new ::
  "pyval \<Rightarrow> pyval \<Rightarrow> pyval \<Rightarrow> pyval \<Rightarrow> pyval \<Rightarrow> pyval py" where
  "TestResult_new metric_output executor_output configs_used metadata timestamp =
     construct CTestResult
       (\<lambda>self. TestResult_init self metric_output executor_output configs_used metadata timestamp)"

definition TestRunner_validate_components :: "env \<Rightarrow> pyval \<Rightarrow> unit py" where
  "TestRunner_validate_components E self =
     bindE (getattr self ''executor'') (\<lambda>executor.
     bindE get_state (\<lambda>s.
     if \<not> is_instance E (heap s) executor CPromptExecutorBase
     then raiseE (ValueError ''Executor must be an instance of PromptExecutorBase'')
     else
       bindE (getattr self ''evaluator'') (\<lambda>evaluator.
       bindE get_state (\<lambda>s.
       if \<not> is_instance E (heap s) evaluator CMetricEvaluatorBase
       then raiseE (ValueError ''Evaluator must be an instance of MetricEvaluatorBase'')
       else
         bindE (getattr self ''config'') (\<lambda>config.
         bindE get_state (\<lambda>s.
         if \<not> is_instance E (heap s) config CTestConfig
         then raiseE (ValueError ''Config must be an instance of TestConfig'')
         else returnE ()))))))"

definition TestRunner_init :: "env \<Rightarrow> pyval \<Rightarrow> pyval \<Rightarrow> pyval \<Rightarrow> pyval \<Rightarrow> unit py" where
  "TestRunner_init E self executor evaluator config =
     bindE (setattr self ''executor'' executor) (\<lambda>_.
     bindE (setattr self ''evaluator'' evaluator) (\<lambda>_.
     bindE (setattr self ''config'' config) (\<lambda>_.
     TestRunner_validate_components E self)))"

definition TestRunner_new :: "env \<Rightarrow> pyval \<Rightarrow> pyval \<Rightarrow> pyval \<Rightarrow> pyval py" where
  "TestRunner_new E executor evaluator config =
     construct CTestRunner (\<lambda>self. TestRunner_init E self executor evaluator config)"

text \<open>
  \<open>_merge_configs\<close>. A dictionary display \<open>{**a, **b}\<close> builds a new dictionary, updates it
  with the items of \<open>a\<close>, then with those of \<open>b\<close>; the new dictionary enters the heap once
  it is complete.
\<close>

definition TestRunner_merge_configs :: "pyval \<Rightarrow> pyval \<Rightarrow> pyval \<Rightarrow> pyval py" where
  "TestRunner_merge_configs self base_config override_config =
     bindE get_state (\<lambda>s.
     if \<not> truthy (heap s) override_config then returnE base_config
     else
       bindE (getattr base_config ''executor_config'') (\<lambda>be.
       bindE (mapping_items be) (\<lambda>be_items.
       bindE (getattr override_config ''executor_config'') (\<lambda>oe.
       bindE (mapping_items oe) (\<lambda>oe_items.
       bindE (alloc (ODict (dict_update (dict_update [] be_items) oe_items)))
         (\<lambda>merged_executor_config.
       bindE (getattr base_config ''metric_config'') (\<lambda>bm.
       bindE (mapping_items bm) (\<lambda>bm_items.
       bindE (getattr override_config ''metric_config'') (\<lambda>om.
       bindE (mapping_items om) (\<lambda>om_items.
       bindE (alloc (ODict (dict_update (dict_update [] bm_items) om_items)))
         (\<lambda>merged_metric_config.
       TestConfig_new merged_executor_config merged_metric_config)))))))))))"

definition TestRunner_get_metadata :: "env \<Rightarrow> pyval \<Rightarrow> pyval py" where
  "TestRunner_get_metadata E self =
     bindE (getattr self ''executor'') (\<lambda>executor.
     bindE get_state (\<lambda>s1.
     bindE (getattr self ''evaluator'') (\<lambda>evaluator.
     bindE get_state (\<lambda>s2.
     bindE datetime_now (\<lambda>t.
     alloc (ODict
       [(''executor_type'', PStr (class_name (class_of (heap s1) executor))),
        (''evaluator_type'', PStr (class_name (class_of (heap s2) evaluator))),
        (''timestamp'', PStr (isoformat E t))]))))))"

text \<open>
  \<open>run(self, input_data, evaluation_params=None, override_config=None)\<close>. An omitted
  argument is its default \<open>PNone\<close>. Python evaluates the callee before the arguments
  and the arguments left to right; \<open>evaluation_params or {}\<close> yields the left operand
  when it is true and otherwise a new empty dictionary. The runner is an instance of
  \<open>TestRunner\<close> itself, so \<open>self._merge_configs\<close> and \<open>self._get_metadata\<close> are the
  methods above; \<open>execute\<close> and \<open>evaluate\<close> are resolved on the classes of the
  collaborators.
\<close>

definition TestRunner_run :: "env \<Rightarrow> pyval \<Rightarrow> pyval \<Rightarrow> pyval \<Rightarrow> pyval \<Rightarrow> pyval py" where
  "TestRunner_run E self input_data evaluation_params override_config =
     bindE (getattr self ''config'') (\<lambda>config.
     bindE (TestRunner_merge_configs self config override_config) (\<lambda>effective_config.
     bindE (getattr self ''executor'') (\<lambda>executor.
     bindE (lookup_method E executor ''execute'') (\<lambda>execute.
     bindE (getattr effective_config ''executor_config'') (\<lambda>ec.
     bindE (invoke ''execute'' execute [executor, input_data, ec]) (\<lambda>base_output.
     bindE (getattr self ''evaluator'') (\<lambda>evaluator.
     bindE (lookup_method E evaluator ''evaluate'') (\<lambda>evaluate.
     bindE (getattr self ''executor'') (\<lambda>executor_arg.
     bindE (getattr effective_config ''executor_config'') (\<lambda>executor_config.
     bindE (getattr effective_config ''metric_config'') (\<lambda>test_config.
     bindE get_state (\<lambda>s.
     bindE (if truthy (heap s) evaluation_params then returnE evaluation_params
            else alloc (ODict [])) (\<lambda>params.
     bindE (invoke ''evaluate'' evaluate
              [evaluator, executor_arg, input_data, base_output, executor_config,
               test_config, params]) (\<lambda>metric_result.
     bindE (TestRunner_get_metadata E self) (\<lambda>metadata.
     bindE datetime_now (\<lambda>timestamp.
     TestResult_new metric_result base_output effective_config metadata
       (PDatetime timestamp)))))))))))))))))"

section \<open>Vocabulary of the properties\<close>



text \<open>The method call \<open>v.name(*args)\<close>.\<close>

definition call_method :: "env \<Rightarrow> pyval \<Rightarrow> string \<Rightarrow> pyval list \<Rightarrow> pyval py" where
  "call_method E v name args = bindE (lookup_method E v name) (\<lambda>m. m (v # args))"

text \<open>
  Class \<open>c\<close> derives from \<open>base\<close> and no class before \<open>base\<close> in its method resolution
  order defines \<open>name\<close>: the method is not overridden.
\<close>

definition not_overridden :: "env \<Rightarrow> cls \<Rightarrow> cls \<Rightarrow> string \<Rightarrow> bool" where
  "not_overridden E c base name =
     (base \<in> set (mro_of E c) \<and>
      list_all (\<lambda>k. own_method E k name = None) (takeWhile (\<lambda>k. k \<noteq> base) (mro_of E c)))"


text \<open>
  The two dictionaries of a \<open>TestConfig\<close> value: defined when the value is a
  \<open>TestConfig\<close> instance whose two fields refer to dictionaries.
\<close>

definition TestConfig_fields :: "heap \<Rightarrow> pyval \<Rightarrow> (items \<times> items) option" where
  "TestConfig_fields h v =
     (if class_of h v = CTestConfig then
        (case (attr_of h v ''executor_config'', attr_of h v ''metric_config'') of
           (Some e, Some m) \<Rightarrow>
             (case (dict_of h e, dict_of h m) of
                (Some ei, Some mi) \<Rightarrow> Some (ei, mi)
              | _ \<Rightarrow> None)
         | _ \<Rightarrow> None)
      else None)"

text \<open>The keys of a dictionary are pairwise distinct.\<close>

definition distinct_keys :: "items \<Rightarrow> bool" where
  "distinct_keys d = distinct (map fst d)"

text \<open>
  Every object allocated in \<open>s\<close> whose address is in \<open>A\<close> is still allocated and the
  same in \<open>s'\<close>.
\<close>

definition unchanged_on :: "addr set \<Rightarrow> state \<Rightarrow> state \<Rightarrow> bool" where
  "unchanged_on A s s' =
     (\<forall>a\<in>A. a < length (heap s) \<longrightarrow> a < length (heap s') \<and> heap s' ! a = heap s ! a)"

text \<open>No method of any class writes to an object whose address is in \<open>A\<close>.\<close>

definition leaves_alone :: "env \<Rightarrow> addr set \<Rightarrow> bool" where
  "leaves_alone E A =
     (\<forall>c name m args s r s'.
        own_method E c name = Some m \<longrightarrow> m args s = (r, s') \<longrightarrow> unchanged_on A s s')"

text \<open>A numeric score within the closed interval from 0 to 1.\<close>

definition in_unit_interval :: "pyval \<Rightarrow> bool" where
  "in_unit_interval v =
     (case v of
        PFloat x \<Rightarrow> 0 \<le> x \<and> x \<le> 1
      | PInt i \<Rightarrow> 0 \<le> i \<and> i \<le> 1
      | PBool b \<Rightarrow> True
      | _ \<Rightarrow> False)"

text \<open>A computation leaves the objects at the addresses in \<open>A\<close> as they are.\<close>

definition preserves :: "addr set \<Rightarrow> 'a py \<Rightarrow> bool" where
  "preserves A m = (\<forall>s r s'. m s = (r, s') \<longrightarrow> unchanged_on A s s')"

text \<open>The address a value refers to, and the addresses of a configuration and its two fields.\<close>

definition ref_addrs :: "pyval \<Rightarrow> addr set" where
  "ref_addrs v = (case v of PRef a \<Rightarrow> {a} | _ \<Rightarrow> {})"

definition TestConfig_addrs :: "heap \<Rightarrow> pyval \<Rightarrow> addr set" where
  "TestConfig_addrs h v =
     ref_addrs v \<union>
     (case attr_of h v ''executor_config'' of Some e \<Rightarrow> ref_addrs e | None \<Rightarrow> {}) \<union>
     (case attr_of h v ''metric_config'' of Some m \<Rightarrow> ref_addrs m | None \<Rightarrow> {})"

text \<open>
  A call left the objects at the addresses in \<open>A\<close> as they were: every such object
  allocated in the heap the call started on is still allocated, and the same, in the
  heap it left.
\<close>

definition untouched :: "addr set \<Rightarrow> heap \<times> heap \<Rightarrow> bool" where
  "untouched A hh =
     (case hh of
        (h, h') \<Rightarrow> \<forall>a\<in>A. a < length h \<longrightarrow> a < length h' \<and> h' ! a = h ! a)"

text \<open>
  What a computation started in \<open>s\<close> adds to the log: it only appends calls, with one
  snapshot each; every call it appends satisfies \<open>P\<close>, which may look at the call's
  snapshot; and if each of these calls left the objects at the addresses in \<open>A\<close> as they
  were, so did the whole computation.
\<close>

definition tracks ::
  "addr set \<Rightarrow> (call \<times> heap \<times> heap \<Rightarrow> bool) \<Rightarrow> 'a py \<Rightarrow> state \<Rightarrow> bool" where
  "tracks A P m s =
     (\<forall>r s'. m s = (r, s') \<longrightarrow>
        (\<exists>nc ns.
           calls s' = calls s @ nc \<and> snapshots s' = snapshots s @ ns \<and>
           length ns = length nc \<and> list_all P (zip nc ns) \<and>
           (list_all (untouched A) ns \<longrightarrow> unchanged_on A s s')))"

text \<open>
  A logged call is a call of \<open>execute\<close> with three arguments or of \<open>evaluate\<close> with
  seven (\<open>self\<close> first).
\<close>

definition collaborator_call :: "call \<Rightarrow> bool" where
  "collaborator_call c =
     (case c of
        (name, args, out) \<Rightarrow>
          name = ''execute'' \<and> length args = 3 \<or> name = ''evaluate'' \<and> length args = 7)"

text \<open>
  A logged call to \<open>evaluate\<close>, where the caller of \<open>run\<close> passed \<open>ep\<close>: it has seven
  arguments (\<open>self\<close> first), of which the last, \<open>evaluation_params\<close>, is not \<open>None\<close>; if
  the caller passed \<open>None\<close>, it is an empty dictionary in the heap \<open>evaluate\<close> was called
  on; if what the caller passed is a non-empty dictionary in that heap, it is what the
  caller passed.
\<close>

definition params_ok :: "pyval \<Rightarrow> call \<times> heap \<times> heap \<Rightarrow> bool" where
  "params_ok ep ch =
     (case ch of
        ((name, args, out), (h, h')) \<Rightarrow>
          name = ''evaluate'' \<longrightarrow>
          length args = 7 \<and> args ! 6 \<noteq> PNone \<and>
          (ep = PNone \<longrightarrow> dict_of h (args ! 6) = Some []) \<and>
          (\<forall>d. dict_of h ep = Some d \<and> d \<noteq> [] \<longrightarrow> args ! 6 = ep))"

section \<open>Test doubles\<close>

text \<open>
  An executor that echoes a string input, an evaluator that always reports a perfect
  score, and a subclass of each base class that overrides nothing.
\<close>

definition echo_execute :: pymethod where
  "echo_execute args =
     (case args of
        [self, input_data, config] \<Rightarrow>
          (case input_data of
             PStr x \<Rightarrow> returnE (PStr (''ECHO:'' @ x))
           | _ \<Rightarrow> returnE input_data)
      | _ \<Rightarrow> raiseE (TypeError ''execute() takes 3 positional arguments''))"

definition const_evaluate :: pymethod where
  "const_evaluate args =
     bindE (alloc (ODict [])) (\<lambda>details.
     bindE (alloc (ODict [])) (\<lambda>threshold.
     MetricOutput_new (PFloat 1) (PEnum PASSED) PNone details threshold))"

definition example_classes :: "string \<Rightarrow> user_class" where
  "example_classes n =
     (if n = ''EchoExecutor'' then
        \<lparr>mro = [CPromptExecutorBase, CObject],
         methods = (\<lambda>m. if m = ''execute'' then Some echo_execute else None)\<rparr>
      else if n = ''ConstEvaluator'' then
        \<lparr>mro = [CMetricEvaluatorBase, CObject],
         methods = (\<lambda>m. if m = ''evaluate'' then Some const_evaluate else None)\<rparr>
      else if n = ''BareExecutor'' then
        \<lparr>mro = [CPromptExecutorBase, CObject], methods = (\<lambda>m. None)\<rparr>
      else if n = ''BareEvaluator'' then
        \<lparr>mro = [CMetricEvaluatorBase, CObject], methods = (\<lambda>m. None)\<rparr>
      else \<lparr>mro = [CObject], methods = (\<lambda>m. None)\<rparr>)"

definition example_env :: env where
  "example_env = \<lparr>classes = example_classes, isoformat = (\<lambda>t. ''2024-01-01T00:00:00'')\<rparr>"

text \<open>
  A heap with a base configuration (address 2), an override (address 5) sharing the
  key \<open>opts\<close> with it, both times bound to a nested dictionary (addresses 9 and 10),
  the two test doubles (6 and 7), a runner bound to them and to the base configuration
  (8), an instance of each bare subclass (11 and 12), and a non-empty dictionary to pass
  as \<open>evaluation_params\<close> (13).
\<close>

definition example_heap :: heap where
  "example_heap =
     [ODict [(''model'', PStr ''a''), (''opts'', PRef 9)],
      ODict [],
      OInst CTestConfig [(''executor_config'', PRef 0), (''metric_config'', PRef 1)],
      ODict [(''temperature'', PFloat (1 / 2)), (''opts'', PRef 10)],
      ODict [],
      OInst CTestConfig [(''executor_config'', PRef 3), (''metric_config'', PRef 4)],
      OInst (CUser ''EchoExecutor'') [],
      OInst (CUser ''ConstEvaluator'') [],
      OInst CTestRunner [(''executor'', PRef 6), (''evaluator'', PRef 7), (''config'', PRef 2)],
      ODict [(''x'', PInt 1), (''y'', PInt 2)],
      ODict [(''x'', PInt 5)],
      OInst (CUser ''BareExecutor'') [],
      OInst (CUser ''BareEvaluator'') [],
      ODict [(''k'', PInt 1)]]"

definition example_state :: state where
  "example_state = \<lparr>heap = example_heap, clock = 0, calls = [], snapshots = []\<rparr>"

section \<open>Stepping through computations\<close>

lemma bindE_returnE [simp]: "bindE (returnE x) f = f x"
  by (rule ext) (simp add: bindE_def returnE_def)

lemma bindE_raiseE [simp]: "bindE (raiseE e) f = raiseE e"
  by (rule ext) (simp add: bindE_def raiseE_def)

lemma bindE_assoc [simp]: "bindE (bindE m f) g = bindE m (\<lambda>x. bindE (f x) g)"
  by (rule ext) (simp add: bindE_def split: prod.splits sum.splits)

lemma bindE_get_state [simp]: "bindE get_state f s = f s s"
  by (simp add: bindE_def get_state_def)

lemma bindE_alloc [simp]:
  "bindE (alloc ob) f s = f (PRef (length (heap s))) (s\<lparr>heap := heap s @ [ob]\<rparr>)"
  by (simp add: bindE_def alloc_def)

lemma bindE_getattr [simp]:
  "bindE (getattr v name) f s =
     (case attr_of (heap s) v name of
        Some x \<Rightarrow> f x s
      | None \<Rightarrow> (Inl (AttributeError name), s))"
  by (simp add: bindE_def getattr_def split: option.splits)

lemma obj_at_append_last [simp]: "obj_at (h @ [ob]) (length h) = ob"
  by (simp add: obj_at_def)

lemma attr_of_last [simp]:
  "attr_of (h @ [OInst c attrs]) (PRef (length h)) name = map_of attrs name"
  by (simp add: attr_of_def)

lemma bindE_setattr_last [simp]:
  "bindE (setattr (PRef (length h)) name x) f (s\<lparr>heap := h @ [OInst c attrs]\<rparr>) =
     f () (s\<lparr>heap := h @ [OInst c (dict_setitem attrs name x)]\<rparr>)"
  by (simp add: bindE_def setattr_def)

lemma setattr_last [simp]:
  "setattr (PRef (length h)) name x (s\<lparr>heap := h @ [OInst c attrs]\<rparr>) =
     (Inr (), s\<lparr>heap := h @ [OInst c (dict_setitem attrs name x)]\<rparr>)"
  by (simp add: setattr_def)

lemma class_of_append:
  "class_of (h @ [OInst c attrs]) v = (if v = PRef (length h) then c else class_of h v)"
  by (cases v) (auto simp: obj_at_def nth_append)

lemma is_instance_append_package:
  "mro_of E c = [c, CObject] \<Longrightarrow> k \<noteq> c \<Longrightarrow> k \<noteq> CObject \<Longrightarrow>
   is_instance E (h @ [OInst c attrs]) v k = is_instance E h v k"
  by (auto simp: is_instance_def class_of_append obj_at_def)

subsection \<open>The constructors\<close>

lemma MetricOutput_new_eq:
  "MetricOutput_new score status visualization details threshold s =
     (Inr (PRef (length (heap s))),
      s\<lparr>heap := heap s @ [OInst CMetricOutput
         [(''score'', score), (''status'', status), (''visualization'', visualization),
          (''details'', details), (''threshold'', threshold)]]\<rparr>)"
  by (simp add: MetricOutput_new_def construct_def MetricOutput_init_def returnE_def)

lemma TestConfig_new_eq:
  "TestConfig_new ec mc s =
     (Inr (PRef (length (heap s))),
      s\<lparr>heap := heap s @ [OInst CTestConfig
         [(''executor_config'', ec), (''metric_config'', mc)]]\<rparr>)"
  by (simp add: TestConfig_new_def construct_def TestConfig_init_def returnE_def)

lemma TestResult_new_eq:
  "TestResult_new mo eo cu md ts s =
     (Inr (PRef (length (heap s))),
      s\<lparr>heap := heap s @ [OInst CTestResult
         [(''metric_output'', mo), (''executor_output'', eo), (''configs_used'', cu),
          (''metadata'', md), (''timestamp'', ts)]]\<rparr>)"
  by (simp add: TestResult_new_def construct_def TestResult_init_def returnE_def)

lemma PromptExecutorBase_new_eq:
  "PromptExecutorBase_new E cs s =
     (if is_instance E (heap s) cs CDict then Inr (PRef (length (heap s)))
      else Inl (ValueError ''Config schema must be a dictionary''),
      s\<lparr>heap := heap s @ [OInst CPromptExecutorBase [(''config_schema'', cs)]]\<rparr>)"
  by (simp add: PromptExecutorBase_new_def construct_def PromptExecutorBase_init_def
      PromptExecutorBase_validate_schema_def is_instance_append_package returnE_def raiseE_def)

lemma MetricEvaluatorBase_new_eq:
  "MetricEvaluatorBase_new E cfg s =
     (if is_instance E (heap s) cfg CDict then Inr (PRef (length (heap s)))
      else Inl (ValueError ''Config must be a dictionary''),
      s\<lparr>heap := heap s @ [OInst CMetricEvaluatorBase [(''config'', cfg)]]\<rparr>)"
  by (simp add: MetricEvaluatorBase_new_def construct_def MetricEvaluatorBase_init_def
      MetricEvaluatorBase_validate_config_def is_instance_append_package returnE_def raiseE_def)

lemma TestRunner_new_eq:
  "TestRunner_new E ex ev cfg s =
     (if \<not> is_instance E (heap s) ex CPromptExecutorBase
      then Inl (ValueError ''Executor must be an instance of PromptExecutorBase'')
      else if \<not> is_instance E (heap s) ev CMetricEvaluatorBase
      then Inl (ValueError ''Evaluator must be an instance of MetricEvaluatorBase'')
      else if \<not> is_instance E (heap s) cfg CTestConfig
      then Inl (ValueError ''Config must be an instance of TestConfig'')
      else Inr (PRef (length (heap s))),
      s\<lparr>heap := heap s @ [OInst CTestRunner
         [(''executor'', ex), (''evaluator'', ev), (''config'', cfg)]]\<rparr>)"
  by (simp add: TestRunner_new_def construct_def TestRunner_init_def
      TestRunner_validate_components_def is_instance_append_package returnE_def raiseE_def)

subsection \<open>Method resolution\<close>

lemma find_method_not_overridden:
  "own_method E base name = Some m \<Longrightarrow> base \<in> set cs \<Longrightarrow>
   list_all (\<lambda>k. own_method E k name = None) (takeWhile (\<lambda>k. k \<noteq> base) cs) \<Longrightarrow>
   find_method E cs name = Some m"
  by (induction cs) (auto split: if_splits)

lemma call_method_not_overridden:
  assumes "not_overridden E (class_of (heap s) v) base name"
    and "own_method E base name = Some m"
  shows "call_method E v name args s = m (v # args) s"
  using assms find_method_not_overridden [of E base name m "mro_of E (class_of (heap s) v)"]
  by (simp add: call_method_def lookup_method_def not_overridden_def bindE_def)

subsection \<open>Dictionaries\<close>

lemma map_of_dict_setitem: "map_of (dict_setitem d k v) k' = (if k' = k then Some v else map_of d k')"
  by (induction d) auto

lemma keys_dict_setitem: "fst ` set (dict_setitem d k v) = insert k (fst ` set d)"
  by (induction d) force+

lemma distinct_dict_setitem:
  "distinct (map fst d) \<Longrightarrow> distinct (map fst (dict_setitem d k v))"
proof (induction d)
  case Nil
  then show ?case by simp
next
  case (Cons x d)
  obtain k' v' where x: "x = (k', v')" by (cases x)
  with Cons show ?case
    using keys_dict_setitem [of d k v] by auto
qed

lemma dict_update_Nil: "dict_update d [] = d"
  by (simp add: dict_update_def)

lemma dict_update_Cons: "dict_update d ((k, v) # xs) = dict_update (dict_setitem d k v) xs"
  by (simp add: dict_update_def)

lemma map_of_dict_update:
  "distinct (map fst other) \<Longrightarrow>
   map_of (dict_update d other) k = (case map_of other k of Some v \<Rightarrow> Some v | None \<Rightarrow> map_of d k)"
proof (induction other arbitrary: d)
  case Nil
  then show ?case by (simp add: dict_update_Nil)
next
  case (Cons x xs)
  obtain k' v' where x: "x = (k', v')" by (cases x)
  from Cons.prems x have "k' \<notin> fst ` set xs" and dxs: "distinct (map fst xs)" by auto
  then have "map_of xs k' = None" by (simp add: map_of_eq_None_iff)
  with Cons.IH [OF dxs, of "dict_setitem d k' v'"] x show ?case
    by (simp add: dict_update_Cons map_of_dict_setitem split: option.splits)
qed

lemma keys_dict_update:
  "fst ` set (dict_update d other) = fst ` set d \<union> fst ` set other"
proof (induction other arbitrary: d)
  case Nil
  then show ?case by (simp add: dict_update_Nil)
next
  case (Cons x xs)
  obtain k' v' where x: "x = (k', v')" by (cases x)
  with Cons.IH [of "dict_setitem d k' v'"] show ?case
    by (simp add: dict_update_Cons keys_dict_setitem)
qed

lemma distinct_dict_update:
  "distinct (map fst d) \<Longrightarrow> distinct (map fst (dict_update d other))"
proof (induction other arbitrary: d)
  case Nil
  then show ?case by (simp add: dict_update_Nil)
next
  case (Cons x xs)
  obtain k' v' where x: "x = (k', v')" by (cases x)
  with Cons.IH [of "dict_setitem d k' v'"] Cons.prems show ?case
    by (simp add: dict_update_Cons distinct_dict_setitem)
qed

text \<open>The dictionary display \<open>{**a, **b}\<close>.\<close>

lemma display_lookup:
  assumes "distinct_keys a" "distinct_keys b"
  shows "map_of (dict_update (dict_update [] a) b) k =
           (case map_of b k of Some v \<Rightarrow> Some v | None \<Rightarrow> map_of a k)"
  using assms by (simp add: map_of_dict_update distinct_keys_def split: option.splits)

lemma display_keys:
  "fst ` set (dict_update (dict_update [] a) b) = fst ` set a \<union> fst ` set b"
  by (simp add: keys_dict_update)

lemma display_distinct: "distinct_keys (dict_update (dict_update [] a) b)"
  by (simp add: distinct_dict_update distinct_keys_def)

subsection \<open>Reading the store\<close>

lemma class_of_TestConfigD:
  "class_of h v = CTestConfig \<Longrightarrow> \<exists>a attrs. v = PRef a \<and> a < length h \<and> h ! a = OInst CTestConfig attrs"
  by (cases v) (auto simp: obj_at_def split: pyobj.splits if_splits)

lemma dict_ofD: "dict_of h v = Some d \<Longrightarrow> \<exists>a. v = PRef a \<and> a < length h \<and> h ! a = ODict d"
  by (cases v) (auto simp: dict_of_def obj_at_def split: pyobj.splits if_splits)

lemma obj_at_append_old [simp]: "a < length h \<Longrightarrow> obj_at (h @ obs) a = obj_at h a"
  by (simp add: obj_at_def nth_append)

lemma attr_of_append_old [simp]:
  "a < length h \<Longrightarrow> attr_of (h @ obs) (PRef a) name = attr_of h (PRef a) name"
  by (simp add: attr_of_def)

lemma dict_of_append_old [simp]:
  "a < length h \<Longrightarrow> dict_of (h @ obs) (PRef a) = dict_of h (PRef a)"
  by (simp add: dict_of_def)

lemma class_of_append_old [simp]:
  "a < length h \<Longrightarrow> class_of (h @ obs) (PRef a) = class_of h (PRef a)"
  by simp

lemma TestConfig_fieldsD:
  assumes "TestConfig_fields h v = Some (ei, mi)"
  obtains a ae am where "v = PRef a" "a < length h" "obj_at h a \<noteq> ODict []" 
    "truthy h v"
    "attr_of h v ''executor_config'' = Some (PRef ae)" "ae < length h" "dict_of h (PRef ae) = Some ei"
    "attr_of h v ''metric_config'' = Some (PRef am)" "am < length h" "dict_of h (PRef am) = Some mi"
proof -
  from assms have c: "class_of h v = CTestConfig"
    by (simp add: TestConfig_fields_def split: if_splits)
  then obtain a attrs where a: "v = PRef a" "a < length h" "h ! a = OInst CTestConfig attrs"
    using class_of_TestConfigD by blast
  from assms c obtain e m where em: "attr_of h v ''executor_config'' = Some e"
    "attr_of h v ''metric_config'' = Some m" "dict_of h e = Some ei" "dict_of h m = Some mi"
    by (auto simp: TestConfig_fields_def split: option.splits)
  from em(3) obtain ae where ae: "e = PRef ae" "ae < length h" using dict_ofD by blast
  from em(4) obtain am where am: "m = PRef am" "am < length h" using dict_ofD by blast
  from a have "truthy h v" "obj_at h a \<noteq> ODict []" by (simp_all add: obj_at_def)
  with a em ae am that show thesis by blast
qed

lemma bindE_mapping_items:
  "bindE (mapping_items v) f s =
     (case dict_of (heap s) v of
        Some d \<Rightarrow> f d s
      | None \<Rightarrow> (Inl (TypeError ([CHR 0x27] @ class_name (class_of (heap s) v) @ [CHR 0x27]
                           @ '' object is not a mapping'')), s))"
  by (simp add: bindE_def mapping_items_def split: option.splits)

lemma merge_configs_None:
  "\<not> truthy (heap s) ov \<Longrightarrow> TestRunner_merge_configs self base ov s = (Inr base, s)"
  by (simp add: TestRunner_merge_configs_def returnE_def)

lemma merge_configs_eq:
  assumes b: "TestConfig_fields (heap s) base = Some (be, bm)"
    and ov: "TestConfig_fields (heap s) ov = Some (oe, om)"
  shows "TestRunner_merge_configs self base ov s =
     (Inr (PRef (length (heap s) + 2)),
      s\<lparr>heap := heap s @
         [ODict (dict_update (dict_update [] be) oe),
          ODict (dict_update (dict_update [] bm) om),
          OInst CTestConfig [(''executor_config'', PRef (length (heap s))),
                             (''metric_config'', PRef (length (heap s) + 1))]]\<rparr>)"
proof -
  from b obtain a ae am where B: "base = PRef a" "a < length (heap s)"
    "attr_of (heap s) base ''executor_config'' = Some (PRef ae)" "ae < length (heap s)"
    "dict_of (heap s) (PRef ae) = Some be"
    "attr_of (heap s) base ''metric_config'' = Some (PRef am)" "am < length (heap s)"
    "dict_of (heap s) (PRef am) = Some bm"
    by (rule TestConfig_fieldsD)
  from ov obtain c ce cm where O: "ov = PRef c" "c < length (heap s)" "truthy (heap s) ov"
    "attr_of (heap s) ov ''executor_config'' = Some (PRef ce)" "ce < length (heap s)"
    "dict_of (heap s) (PRef ce) = Some oe"
    "attr_of (heap s) ov ''metric_config'' = Some (PRef cm)" "cm < length (heap s)"
    "dict_of (heap s) (PRef cm) = Some om"
    by (rule TestConfig_fieldsD)
  from B O show ?thesis
    by (simp add: TestRunner_merge_configs_def bindE_mapping_items TestConfig_new_eq)
qed

subsection \<open>Stepping through \<open>run\<close>\<close>

lemma bindE_Inr_iff:
  "(bindE m f s = (Inr y, s')) = (\<exists>x s1. m s = (Inr x, s1) \<and> f x s1 = (Inr y, s'))"
  by (auto simp: bindE_def split: prod.splits sum.splits)

lemma bindE_lookup_method:
  "bindE (lookup_method E v name) f s =
     (case find_method E (mro_of E (class_of (heap s) v)) name of
        Some m \<Rightarrow> f m s
      | None \<Rightarrow> (Inl (AttributeError name), s))"
  by (simp add: bindE_def lookup_method_def split: option.splits)

lemma bindE_datetime_now:
  "bindE datetime_now f s = f (clock s) (s\<lparr>clock := Suc (clock s)\<rparr>)"
  by (simp add: bindE_def datetime_now_def)

lemma bindE_invoke:
  "bindE (invoke name m args) f s =
     (case m args s of
        (Inl e, t) \<Rightarrow>
          (Inl e, t\<lparr>calls := calls s @ [(name, args, Inl e)],
                    snapshots := snapshots s @ [(heap s, heap t)]\<rparr>)
      | (Inr x, t) \<Rightarrow>
          f x (t\<lparr>calls := calls s @ [(name, args, Inr x)],
                 snapshots := snapshots s @ [(heap s, heap t)]\<rparr>))"
  by (simp add: bindE_def invoke_def split: prod.splits sum.splits)

lemma bindE_merge_None:
  "\<not> truthy (heap s) ov \<Longrightarrow> bindE (TestRunner_merge_configs self base ov) f s = f base s"
  by (simp add: bindE_def merge_configs_None)

lemma bindE_merge_eq:
  assumes "TestConfig_fields (heap s) base = Some (be, bm)"
    and "TestConfig_fields (heap s) ov = Some (oe, om)"
  shows "bindE (TestRunner_merge_configs self base ov) f s =
     f (PRef (length (heap s) + 2))
       (s\<lparr>heap := heap s @
         [ODict (dict_update (dict_update [] be) oe),
          ODict (dict_update (dict_update [] bm) om),
          OInst CTestConfig [(''executor_config'', PRef (length (heap s))),
                             (''metric_config'', PRef (length (heap s) + 1))]]\<rparr>)"
  by (simp add: bindE_def merge_configs_eq [OF assms])

lemma merge_configs_effect:
  "TestRunner_merge_configs self base ov s = (r, s1) \<Longrightarrow>
   \<exists>extra. s1 = s\<lparr>heap := heap s @ extra\<rparr>"
  apply (simp add: TestRunner_merge_configs_def bindE_mapping_items TestConfig_new_eq returnE_def
      split: option.splits if_splits)
  apply (auto intro: exI [of _ "[]"])
  done

text \<open>
  What a returning \<open>run\<close> has done, step by step: the intermediate values and states, the
  result record and the call log.
\<close>

lemma run_InrD:
  assumes "TestRunner_run E self inp ep ov s = (Inr res, s')"
  shows "\<exists>config eff s1 executor execute ec out t2 evaluator evaluate executor_arg
            executor_config test_config params s3 mr t4 metadata timestamp.
    attr_of (heap s) self ''config'' = Some config \<and>
    TestRunner_merge_configs self config ov s = (Inr eff, s1) \<and>
    attr_of (heap s1) self ''executor'' = Some executor \<and>
    find_method E (mro_of E (class_of (heap s1) executor)) ''execute'' = Some execute \<and>
    attr_of (heap s1) eff ''executor_config'' = Some ec \<and>
    execute [executor, inp, ec] s1 = (Inr out, t2) \<and>
    attr_of (heap t2) self ''evaluator'' = Some evaluator \<and>
    find_method E (mro_of E (class_of (heap t2) evaluator)) ''evaluate'' = Some evaluate \<and>
    attr_of (heap t2) self ''executor'' = Some executor_arg \<and>
    attr_of (heap t2) eff ''executor_config'' = Some executor_config \<and>
    attr_of (heap t2) eff ''metric_config'' = Some test_config \<and>
    evaluate [evaluator, executor_arg, inp, out, executor_config, test_config, params] s3
      = (Inr mr, t4) \<and>
    (truthy (heap t2) ep \<longrightarrow> params = ep \<and> heap s3 = heap t2) \<and>
    (\<not> truthy (heap t2) ep \<longrightarrow>
       params = PRef (length (heap t2)) \<and> heap s3 = heap t2 @ [ODict []]) \<and>
    calls s3 = calls s @ [(''execute'', [executor, inp, ec], Inr out)] \<and>
    res = PRef (Suc (length (heap t4))) \<and>
    heap s' = heap t4 @
      [ODict metadata,
       OInst CTestResult
         [(''metric_output'', mr), (''executor_output'', out), (''configs_used'', eff),
          (''metadata'', PRef (length (heap t4))), (''timestamp'', timestamp)]] \<and>
    calls s' = calls s @
      [(''execute'', [executor, inp, ec], Inr out),
       (''evaluate'',
        [evaluator, executor_arg, inp, out, executor_config, test_config, params], Inr mr)] \<and>
    snapshots s' = snapshots s @ [(heap s1, heap t2), (heap s3, heap t4)]"
  using assms
  apply (simp add: TestRunner_run_def split: option.splits)
  apply (simp add: bindE_Inr_iff [of "TestRunner_merge_configs _ _ _"])
  apply (elim exE conjE)
  apply (frule merge_configs_effect)
  apply (elim exE)
  apply (simp add: bindE_lookup_method bindE_invoke split: option.splits prod.splits sum.splits)
  apply (simp add: bindE_lookup_method bindE_invoke  bindE_datetime_now TestRunner_get_metadata_def TestResult_new_eq 
     split: option.splits prod.splits sum.splits if_splits)
  subgoal by (rule exI, rule exI, rule exI, rule conjI, assumption) auto
  subgoal by (rule exI, rule exI, rule exI, rule conjI, assumption) auto
  done

lemma run_InrE:
  assumes "TestRunner_run E self inp ep ov s = (Inr res, s')"
  obtains config eff s1 executor execute ec out t2 evaluator evaluate executor_arg
            executor_config test_config params s3 mr t4 metadata timestamp
  where "attr_of (heap s) self ''config'' = Some config"
    and "TestRunner_merge_configs self config ov s = (Inr eff, s1)"
    and "attr_of (heap s1) self ''executor'' = Some executor"
    and "find_method E (mro_of E (class_of (heap s1) executor)) ''execute'' = Some execute"
    and "attr_of (heap s1) eff ''executor_config'' = Some ec"
    and "execute [executor, inp, ec] s1 = (Inr out, t2)"
    and "attr_of (heap t2) self ''evaluator'' = Some evaluator"
    and "find_method E (mro_of E (class_of (heap t2) evaluator)) ''evaluate'' = Some evaluate"
    and "attr_of (heap t2) self ''executor'' = Some executor_arg"
    and "attr_of (heap t2) eff ''executor_config'' = Some executor_config"
    and "attr_of (heap t2) eff ''metric_config'' = Some test_config"
    and "evaluate [evaluator, executor_arg, inp, out, executor_config, test_config, params] s3
           = (Inr mr, t4)"
    and "truthy (heap t2) ep \<longrightarrow> params = ep \<and> heap s3 = heap t2"
    and "\<not> truthy (heap t2) ep \<longrightarrow>
           params = PRef (length (heap t2)) \<and> heap s3 = heap t2 @ [ODict []]"
    and "calls s3 = calls s @ [(''execute'', [executor, inp, ec], Inr out)]"
    and "res = PRef (Suc (length (heap t4)))"
    and "heap s' = heap t4 @
      [ODict metadata,
       OInst CTestResult
         [(''metric_output'', mr), (''executor_output'', out), (''configs_used'', eff),
          (''metadata'', PRef (length (heap t4))), (''timestamp'', timestamp)]]"
    and "calls s' = calls s @
      [(''execute'', [executor, inp, ec], Inr out),
       (''evaluate'',
        [evaluator, executor_arg, inp, out, executor_config, test_config, params], Inr mr)]"
    and "snapshots s' = snapshots s @ [(heap s1, heap t2), (heap s3, heap t4)]"
  using run_InrD [OF assms] by (elim exE conjE) (rule that)

lemma result_attrs:
  assumes "res = PRef (Suc (length h))"
    and "h' = h @ [ODict metadata,
       OInst CTestResult
         [(''metric_output'', mr), (''executor_output'', out), (''configs_used'', eff),
          (''metadata'', md), (''timestamp'', timestamp)]]"
  shows "attr_of h' res ''metric_output'' = Some mr"
    and "attr_of h' res ''executor_output'' = Some out"
    and "attr_of h' res ''configs_used'' = Some eff"
  using assms by (simp_all add: attr_of_def obj_at_def nth_append)

lemma TestConfig_fields_new:
  assumes "dict_of h (PRef e) = Some ei" "dict_of h (PRef m) = Some mi"
    "e < length h" "m < length h"
  shows "TestConfig_fields (h @ [OInst CTestConfig
           [(''executor_config'', PRef e), (''metric_config'', PRef m)]]) (PRef (length h))
         = Some (ei, mi)"
  using assms by (simp add: TestConfig_fields_def)

subsection \<open>What a computation leaves unchanged\<close>

lemma unchanged_on_refl [simp]: "unchanged_on A s s"
  by (simp add: unchanged_on_def)

lemma unchanged_on_trans:
  "unchanged_on A s t \<Longrightarrow> unchanged_on A t u \<Longrightarrow> unchanged_on A s u"
  by (auto simp: unchanged_on_def)

lemma unchanged_on_append: "heap t = heap s @ extra \<Longrightarrow> unchanged_on A s t"
  by (simp add: unchanged_on_def nth_append)

lemma unchanged_on_heap_eq: "heap t = heap s \<Longrightarrow> unchanged_on A s t"
  by (simp add: unchanged_on_def)

lemma unchanged_on_subset: "unchanged_on A s t \<Longrightarrow> B \<subseteq> A \<Longrightarrow> unchanged_on B s t"
  by (auto simp: unchanged_on_def)

lemma preservesI: "(\<And>s r s'. m s = (r, s') \<Longrightarrow> unchanged_on A s s') \<Longrightarrow> preserves A m"
  by (simp add: preserves_def)

lemma preservesD: "preserves A m \<Longrightarrow> m s = (r, s') \<Longrightarrow> unchanged_on A s s'"
  by (simp add: preserves_def)

lemma preserves_bindE:
  assumes "preserves A m" and "\<And>x s s1. m s = (Inr x, s1) \<Longrightarrow> preserves A (f x)"
  shows "preserves A (bindE m f)"
proof (rule preservesI)
  fix s r s'
  assume b: "bindE m f s = (r, s')"
  obtain r1 s1 where m: "m s = (r1, s1)" by (cases "m s")
  with assms(1) have u: "unchanged_on A s s1" by (rule preservesD)
  show "unchanged_on A s s'"
  proof (cases r1)
    case (Inl e)
    with b m u show ?thesis by (simp add: bindE_def)
  next
    case (Inr x)
    with b m have "f x s1 = (r, s')" by (simp add: bindE_def)
    with assms(2) [of s x s1] m Inr have "unchanged_on A s1 s'" by (simp add: preservesD)
    with u show ?thesis by (rule unchanged_on_trans)
  qed
qed

lemma preserves_atoms:
  "preserves A (returnE x)"
  "preserves A (raiseE e)"
  "preserves A get_state"
  "preserves A (getattr v name)"
  "preserves A (mapping_items v)"
  "preserves A (alloc ob)"
  "preserves A (lookup_method E v name)"
  "preserves A datetime_now"
  by (auto simp: preserves_def returnE_def raiseE_def get_state_def getattr_def
      mapping_items_def alloc_def lookup_method_def datetime_now_def
      intro: unchanged_on_append unchanged_on_heap_eq split: option.splits)

lemma preserves_if:
  "preserves A a \<Longrightarrow> preserves A b \<Longrightarrow> preserves A (if c then a else b)"
  by simp

lemma preserves_new:
  "preserves A (TestConfig_new ec mc)"
  "preserves A (TestResult_new mo eo cu md ts)"
  by (auto simp: preserves_def TestConfig_new_eq TestResult_new_eq intro: unchanged_on_append)

lemma preserves_merge_configs: "preserves A (TestRunner_merge_configs self base ov)"
  unfolding TestRunner_merge_configs_def
  by (intro preserves_bindE preserves_atoms preserves_if preserves_new)

lemma find_method_SomeD: "find_method E cs name = Some m \<Longrightarrow> \<exists>c. own_method E c name = Some m"
  by (induction cs) (auto split: option.splits)

lemma preserves_invoke:
  assumes "leaves_alone E A" "lookup_method E v name s = (Inr m, s1)"
  shows "preserves A (invoke n m args)"
proof -
  from assms(2) obtain cs where "find_method E cs name = Some m"
    by (auto simp: lookup_method_def split: option.splits)
  then obtain c where c: "own_method E c name = Some m"
    using find_method_SomeD by blast
  show ?thesis
  proof (rule preservesI)
    fix t r t'
    assume "invoke n m args t = (r, t')"
    then obtain u where "m args t = (r, u)" "heap t' = heap u"
      by (auto simp: invoke_def split: prod.splits)
    with assms(1) c have "unchanged_on A t u" "heap t' = heap u"
      by (auto simp: leaves_alone_def)
    then show "unchanged_on A t t'"
      by (simp add: unchanged_on_def)
  qed
qed

lemma preserves_get_metadata: "preserves A (TestRunner_get_metadata E self)"
  unfolding TestRunner_get_metadata_def
  by (intro preserves_bindE preserves_atoms)

lemma preserves_run:
  assumes "leaves_alone E A"
  shows "preserves A (TestRunner_run E self inp ep ov)"
  unfolding TestRunner_run_def
  by (intro preserves_bindE preserves_atoms preserves_if preserves_new
      preserves_merge_configs preserves_get_metadata preserves_invoke [OF assms])


lemma TestConfig_fields_unchanged:
  assumes f: "TestConfig_fields (heap s) v = Some x"
    and u: "unchanged_on (TestConfig_addrs (heap s) v) s t"
  shows "TestConfig_fields (heap t) v = Some x"
proof -
  obtain ei mi where x: "x = (ei, mi)" by (cases x)
  from f x obtain a ae am where v: "v = PRef a" "a < length (heap s)"
    and e: "attr_of (heap s) v ''executor_config'' = Some (PRef ae)" "ae < length (heap s)"
      "dict_of (heap s) (PRef ae) = Some ei"
    and m: "attr_of (heap s) v ''metric_config'' = Some (PRef am)" "am < length (heap s)"
      "dict_of (heap s) (PRef am) = Some mi"
    by (auto elim: TestConfig_fieldsD)
  from f have c: "class_of (heap s) v = CTestConfig"
    by (simp add: TestConfig_fields_def split: if_splits)
  from e(1) m(1) v have A: "TestConfig_addrs (heap s) v = {a, ae, am}"
    by (auto simp: TestConfig_addrs_def ref_addrs_def)
  with u v e m have same: "a < length (heap t)" "heap t ! a = heap s ! a"
    "ae < length (heap t)" "heap t ! ae = heap s ! ae"
    "am < length (heap t)" "heap t ! am = heap s ! am"
    by (auto simp: unchanged_on_def)
  with v e m c have "class_of (heap t) v = CTestConfig"
    "attr_of (heap t) v ''executor_config'' = Some (PRef ae)"
    "attr_of (heap t) v ''metric_config'' = Some (PRef am)"
    "dict_of (heap t) (PRef ae) = Some ei" "dict_of (heap t) (PRef am) = Some mi"
    by (simp_all add: attr_of_def dict_of_def obj_at_def)
  with x show ?thesis
    by (simp add: TestConfig_fields_def)
qed

lemma truthy_dict: "dict_of h v = Some d \<Longrightarrow> truthy h v = (d \<noteq> [])"
  by (cases v) (auto simp: dict_of_def split: pyobj.splits)

subsection \<open>What a computation adds to the log\<close>


lemma tracksI:
  assumes "\<And>r s'. m s = (r, s') \<Longrightarrow>
    calls s' = calls s \<and> snapshots s' = snapshots s \<and> unchanged_on A s s'"
  shows "tracks A P m s"
  unfolding tracks_def
proof (intro allI impI)
  fix r s'
  assume "m s = (r, s')"
  from assms [OF this]
  have "calls s' = calls s @ [] \<and> snapshots s' = snapshots s @ [] \<and>
      length ([] :: (heap \<times> heap) list) = length ([] :: call list) \<and>
      list_all P (zip [] []) \<and>
      (list_all (untouched A) [] \<longrightarrow> unchanged_on A s s')"
    by simp
  then show "\<exists>nc ns. calls s' = calls s @ nc \<and> snapshots s' = snapshots s @ ns \<and>
      length ns = length nc \<and> list_all P (zip nc ns) \<and>
      (list_all (untouched A) ns \<longrightarrow> unchanged_on A s s')"
    by (intro exI)
qed

lemma tracksD:
  assumes "tracks A P m s" and "m s = (r, s')"
  obtains nc ns where "calls s' = calls s @ nc" and "snapshots s' = snapshots s @ ns"
    and "length ns = length nc" and "list_all P (zip nc ns)"
    and "list_all (untouched A) ns \<longrightarrow> unchanged_on A s s'"
proof -
  from assms have "\<exists>nc ns. calls s' = calls s @ nc \<and> snapshots s' = snapshots s @ ns \<and>
      length ns = length nc \<and> list_all P (zip nc ns) \<and>
      (list_all (untouched A) ns \<longrightarrow> unchanged_on A s s')"
    unfolding tracks_def by (elim allE impE) assumption
  then show thesis by (elim exE conjE) (rule that)
qed

lemma tracks_bindE:
  assumes "tracks A P m s" and "\<And>x s1. m s = (Inr x, s1) \<Longrightarrow> tracks A P (f x) s1"
  shows "tracks A P (bindE m f) s"
  unfolding tracks_def
proof (intro allI impI)
  fix r s'
  assume b: "bindE m f s = (r, s')"
  obtain r1 s1 where m: "m s = (r1, s1)" by (cases "m s")
  from assms(1) m obtain nc1 ns1 where n1: "calls s1 = calls s @ nc1"
    "snapshots s1 = snapshots s @ ns1" "length ns1 = length nc1" "list_all P (zip nc1 ns1)"
    and u1: "list_all (untouched A) ns1 \<longrightarrow> unchanged_on A s s1"
    by (rule tracksD)
  show "\<exists>nc ns. calls s' = calls s @ nc \<and> snapshots s' = snapshots s @ ns \<and>
      length ns = length nc \<and> list_all P (zip nc ns) \<and>
      (list_all (untouched A) ns \<longrightarrow> unchanged_on A s s')"
  proof (cases r1)
    case (Inl e)
    with b m have "s' = s1" by (simp add: bindE_def)
    with n1 u1 have "calls s' = calls s @ nc1 \<and> snapshots s' = snapshots s @ ns1 \<and>
      length ns1 = length nc1 \<and> list_all P (zip nc1 ns1) \<and>
      (list_all (untouched A) ns1 \<longrightarrow> unchanged_on A s s')"
      by simp
    then show ?thesis by (intro exI)
  next
    case (Inr x)
    with b m have f: "f x s1 = (r, s')" by (simp add: bindE_def)
    from m Inr have "tracks A P (f x) s1" by (simp add: assms(2))
    from this f obtain nc2 ns2 where n2: "calls s' = calls s1 @ nc2"
      "snapshots s' = snapshots s1 @ ns2" "length ns2 = length nc2" "list_all P (zip nc2 ns2)"
      and u2: "list_all (untouched A) ns2 \<longrightarrow> unchanged_on A s1 s'"
      by (rule tracksD)
    have u: "unchanged_on A s s'" if "list_all (untouched A) (ns1 @ ns2)"
    proof -
      from that have "list_all (untouched A) ns1" "list_all (untouched A) ns2" by simp_all
      with u1 u2 have "unchanged_on A s s1" "unchanged_on A s1 s'" by simp_all
      then show ?thesis by (rule unchanged_on_trans)
    qed
    from n1 n2 have "calls s' = calls s @ (nc1 @ nc2) \<and>
      snapshots s' = snapshots s @ (ns1 @ ns2) \<and>
      length (ns1 @ ns2) = length (nc1 @ nc2) \<and> list_all P (zip (nc1 @ nc2) (ns1 @ ns2))"
      by simp
    with u have "calls s' = calls s @ (nc1 @ nc2) \<and>
      snapshots s' = snapshots s @ (ns1 @ ns2) \<and>
      length (ns1 @ ns2) = length (nc1 @ nc2) \<and> list_all P (zip (nc1 @ nc2) (ns1 @ ns2)) \<and>
      (list_all (untouched A) (ns1 @ ns2) \<longrightarrow> unchanged_on A s s')"
      by simp
    then show ?thesis by (intro exI)
  qed
qed

lemma tracks_atoms:
  "tracks A P (returnE x) s"
  "tracks A P (raiseE e) s"
  "tracks A P get_state s"
  "tracks A P (getattr v name) s"
  "tracks A P (mapping_items v) s"
  "tracks A P (alloc ob) s"
  "tracks A P (lookup_method E v name) s"
  "tracks A P datetime_now s"
  "tracks A P (TestConfig_new ec mc) s"
  "tracks A P (TestResult_new mo eo cu md ts) s"
  by (rule tracksI,
      auto simp: returnE_def raiseE_def get_state_def getattr_def
      mapping_items_def alloc_def lookup_method_def datetime_now_def
      TestConfig_new_eq TestResult_new_eq unchanged_on_def nth_append split: option.splits)+

lemma tracks_if:
  "tracks A P a s \<Longrightarrow> tracks A P b s \<Longrightarrow> tracks A P (if c then a else b) s"
  by simp

lemma tracks_merge_configs: "tracks A P (TestRunner_merge_configs self base ov) s"
  unfolding TestRunner_merge_configs_def
  by (intro tracks_bindE tracks_atoms tracks_if)

lemma tracks_get_metadata: "tracks A P (TestRunner_get_metadata E self) s"
  unfolding TestRunner_get_metadata_def
  by (intro tracks_bindE tracks_atoms)

lemma tracks_invoke:
  assumes "\<And>r t. m args s = (r, t) \<Longrightarrow> P ((name, args, r), (heap s, heap t))"
  shows "tracks A P (invoke name m args) s"
  unfolding tracks_def
proof (intro allI impI)
  fix r s'
  assume i: "invoke name m args s = (r, s')"
  obtain t where m: "m args s = (r, t)"
    and s': "s' = t\<lparr>calls := calls s @ [(name, args, r)],
                    snapshots := snapshots s @ [(heap s, heap t)]\<rparr>"
    using i by (auto simp: invoke_def split: prod.splits)
  from assms [OF m] s'
  have "calls s' = calls s @ [(name, args, r)] \<and>
      snapshots s' = snapshots s @ [(heap s, heap t)] \<and>
      length [(heap s, heap t)] = length [(name, args, r)] \<and>
      list_all P (zip [(name, args, r)] [(heap s, heap t)]) \<and>
      (list_all (untouched A) [(heap s, heap t)] \<longrightarrow> unchanged_on A s s')"
    by (simp add: untouched_def unchanged_on_def)
  then show "\<exists>nc ns. calls s' = calls s @ nc \<and> snapshots s' = snapshots s @ ns \<and>
      length ns = length nc \<and> list_all P (zip nc ns) \<and>
      (list_all (untouched A) ns \<longrightarrow> unchanged_on A s s')"
    by (intro exI)
qed

lemma or_empty_dict:
  assumes "get_state s0 = (Inr sx, s1)"
    and "(if truthy (heap sx) ep then returnE ep else alloc (ODict [])) s1 = (Inr params, s2)"
  shows "params \<noteq> PNone \<and>
    (ep = PNone \<longrightarrow> dict_of (heap s2) params = Some []) \<and>
    (\<forall>d. dict_of (heap s2) ep = Some d \<and> d \<noteq> [] \<longrightarrow> params = ep)"
proof (cases "truthy (heap s1) ep")
  case True
  with assms show ?thesis by (auto simp: get_state_def returnE_def)
next
  case False
  with assms have p: "params = PRef (length (heap s1))"
    and h: "heap s2 = heap s1 @ [ODict []]"
    by (auto simp: get_state_def alloc_def)
  have "params = ep" if d: "dict_of (heap s2) ep = Some d" "d \<noteq> []" for d
  proof -
    from dict_ofD [OF d(1)] obtain a where a: "ep = PRef a" "a < length (heap s2)"
      by (elim exE conjE)
    show ?thesis
    proof (cases "a < length (heap s1)")
      case True
      with d(1) a h have "dict_of (heap s1) ep = Some d"
        by (simp add: dict_of_def obj_at_def nth_append)
      with d(2) have "truthy (heap s1) ep" by (simp add: truthy_dict)
      with False show ?thesis by simp
    next
      case False
      with a h p show ?thesis by simp
    qed
  qed
  with p h show ?thesis by (simp add: dict_of_def obj_at_def)
qed

lemma tracks_run:
  "tracks A (\<lambda>ch. collaborator_call (fst ch) \<and> params_ok ep ch)
     (TestRunner_run E self inp ep ov) s"
  unfolding TestRunner_run_def
  apply (intro tracks_bindE tracks_atoms tracks_if tracks_merge_configs
      tracks_get_metadata tracks_invoke)
   apply (simp add: params_ok_def collaborator_call_def)
  apply (drule (1) or_empty_dict)
  apply (simp add: params_ok_def collaborator_call_def)
  done

lemma list_all_zip_conj:
  "length ns = length nc \<Longrightarrow>
   list_all (\<lambda>ch. Q (fst ch) \<and> R ch) (zip nc ns) = (list_all Q nc \<and> list_all R (zip nc ns))"
  by (induction ns nc rule: list_induct2) auto

text \<open>What \<open>run\<close> has added to the log, whatever its outcome.\<close>

lemma run_log:
  assumes "TestRunner_run E self inp ep ov s = (r, s')"
  obtains nc ns where "calls s' = calls s @ nc" and "snapshots s' = snapshots s @ ns"
    and "length ns = length nc" and "list_all collaborator_call nc"
    and "list_all (params_ok ep) (zip nc ns)"
    and "list_all (untouched A) ns \<longrightarrow> unchanged_on A s s'"
proof (rule tracksD [OF tracks_run [of A ep] assms], goal_cases)
  case (1 nc ns)
  from 1(4,5) have "list_all collaborator_call nc" "list_all (params_ok ep) (zip nc ns)"
    by (simp_all add: list_all_zip_conj)
  with 1(2,3,4) show ?case using 1(6) by (rule that)
qed

subsection \<open>Schema validation\<close>






subsection \<open>The example heap\<close>

lemma example_heap_objs [simp]:
  "length example_heap = 14"
  "obj_at example_heap 0 = ODict [(''model'', PStr ''a''), (''opts'', PRef 9)]"
  "obj_at example_heap (Suc 0) = ODict []"
  "obj_at example_heap 2 =
     OInst CTestConfig [(''executor_config'', PRef 0), (''metric_config'', PRef 1)]"
  "obj_at example_heap 3 = ODict [(''temperature'', PFloat (1 / 2)), (''opts'', PRef 10)]"
  "obj_at example_heap 4 = ODict []"
  "obj_at example_heap 5 =
     OInst CTestConfig [(''executor_config'', PRef 3), (''metric_config'', PRef 4)]"
  "obj_at example_heap 6 = OInst (CUser ''EchoExecutor'') []"
  "obj_at example_heap 7 = OInst (CUser ''ConstEvaluator'') []"
  "obj_at example_heap 8 =
     OInst CTestRunner [(''executor'', PRef 6), (''evaluator'', PRef 7), (''config'', PRef 2)]"
  "obj_at example_heap 9 = ODict [(''x'', PInt 1), (''y'', PInt 2)]"
  "obj_at example_heap 10 = ODict [(''x'', PInt 5)]"
  "obj_at example_heap 11 = OInst (CUser ''BareExecutor'') []"
  "obj_at example_heap 12 = OInst (CUser ''BareEvaluator'') []"
  "obj_at example_heap 13 = ODict [(''k'', PInt 1)]"
  by (simp_all add: example_heap_def obj_at_def)

lemma example_state_sel [simp]:
  "heap example_state = example_heap"
  "clock example_state = 0"
  "calls example_state = []"
  "snapshots example_state = []"
  by (simp_all add: example_state_def)

lemma example_env_sel [simp]:
  "classes example_env = example_classes"
  "isoformat example_env t = ''2024-01-01T00:00:00''"
  by (simp_all add: example_env_def)

lemma example_classes_sel [simp]:
  "mro (example_classes ''EchoExecutor'') = [CPromptExecutorBase, CObject]"
  "mro (example_classes ''ConstEvaluator'') = [CMetricEvaluatorBase, CObject]"
  "mro (example_classes ''BareExecutor'') = [CPromptExecutorBase, CObject]"
  "mro (example_classes ''BareEvaluator'') = [CMetricEvaluatorBase, CObject]"
  "methods (example_classes ''EchoExecutor'') ''execute'' = Some echo_execute"
  "methods (example_classes ''ConstEvaluator'') ''evaluate'' = Some const_evaluate"
  "methods (example_classes ''BareExecutor'') name = None"
  "methods (example_classes ''BareEvaluator'') name = None"
  by (simp_all add: example_classes_def)

lemma example_own_method [simp]:
  "own_method example_env (CUser n) name = methods (example_classes n) name"
  by (simp add: own_method_def)

lemma obj_at_append_new: "length h \<le> a \<Longrightarrow> obj_at (h @ xs) a = obj_at xs (a - length h)"
  by (auto simp: obj_at_def nth_append)

lemma obj_at_Cons [simp]:
  "obj_at (x # xs) 0 = x"
  "obj_at (x # xs) (Suc n) = obj_at xs n"
  "obj_at (x # xs) (numeral v) = obj_at xs (pred_numeral v)"
  "obj_at [] a = OInst CObject []"
  by (simp_all add: obj_at_def numeral_eq_Suc)

lemmas run_steps =
  TestRunner_run_def bindE_lookup_method bindE_invoke bindE_datetime_now
  TestRunner_get_metadata_def TestResult_new_eq MetricOutput_new_eq
  echo_execute_def const_evaluate_def returnE_def attr_of_def dict_of_def
  obj_at_append_new

lemma example_fields:
  "TestConfig_fields example_heap (PRef 2)
     = Some ([(''model'', PStr ''a''), (''opts'', PRef 9)], [])"
  "TestConfig_fields example_heap (PRef 5)
     = Some ([(''temperature'', PFloat (1 / 2)), (''opts'', PRef 10)], [])"
  by (simp_all add: TestConfig_fields_def attr_of_def dict_of_def)

lemma example_distinct:
  "distinct_keys [(''model'', PStr ''a''), (''opts'', PRef 9)]"
  "distinct_keys [(''temperature'', PFloat (1 / 2)), (''opts'', PRef 10)]"
  "distinct_keys []"
  by (simp_all add: distinct_keys_def)

lemma example_run_default:
  "TestRunner_run example_env (PRef 8) (PStr ''hello'') PNone PNone example_state =
     (Inr (PRef 19),
      example_state\<lparr>heap := example_heap @
         [ODict [], ODict [], ODict [],
          OInst CMetricOutput
            [(''score'', PFloat 1), (''status'', PEnum PASSED), (''visualization'', PNone),
             (''details'', PRef 15), (''threshold'', PRef 16)],
          ODict [(''executor_type'', PStr ''EchoExecutor''),
                 (''evaluator_type'', PStr ''ConstEvaluator''),
                 (''timestamp'', PStr ''2024-01-01T00:00:00'')],
          OInst CTestResult
            [(''metric_output'', PRef 17), (''executor_output'', PStr ''ECHO:hello''),
             (''configs_used'', PRef 2), (''metadata'', PRef 18),
             (''timestamp'', PDatetime 1)]],
       clock := 2,
       calls := [(''execute'', [PRef 6, PStr ''hello'', PRef 0], Inr (PStr ''ECHO:hello'')),
                (''evaluate'',
                 [PRef 7, PRef 6, PStr ''hello'', PStr ''ECHO:hello'', PRef 0, PRef 1, PRef 14],
                 Inr (PRef 17))],
       snapshots :=
         [(example_heap, example_heap),
          (example_heap @ [ODict []],
           example_heap @
             [ODict [], ODict [], ODict [],
              OInst CMetricOutput
                [(''score'', PFloat 1), (''status'', PEnum PASSED), (''visualization'', PNone),
                 (''details'', PRef 15), (''threshold'', PRef 16)]])]\<rparr>)"
  by (simp add: run_steps bindE_merge_None)

lemma example_run_override:
  "TestRunner_run example_env (PRef 8) (PStr ''hello'') (PRef 13) (PRef 5) example_state =
     (Inr (PRef 21),
      example_state\<lparr>heap := example_heap @
         [ODict [(''model'', PStr ''a''), (''opts'', PRef 10), (''temperature'', PFloat (1 / 2))],
          ODict [],
          OInst CTestConfig [(''executor_config'', PRef 14), (''metric_config'', PRef 15)],
          ODict [], ODict [],
          OInst CMetricOutput
            [(''score'', PFloat 1), (''status'', PEnum PASSED), (''visualization'', PNone),
             (''details'', PRef 17), (''threshold'', PRef 18)],
          ODict [(''executor_type'', PStr ''EchoExecutor''),
                 (''evaluator_type'', PStr ''ConstEvaluator''),
                 (''timestamp'', PStr ''2024-01-01T00:00:00'')],
          OInst CTestResult
            [(''metric_output'', PRef 19), (''executor_output'', PStr ''ECHO:hello''),
             (''configs_used'', PRef 16), (''metadata'', PRef 20),
             (''timestamp'', PDatetime 1)]],
       clock := 2,
       calls := [(''execute'', [PRef 6, PStr ''hello'', PRef 14], Inr (PStr ''ECHO:hello'')),
                (''evaluate'',
                 [PRef 7, PRef 6, PStr ''hello'', PStr ''ECHO:hello'', PRef 14, PRef 15, PRef 13],
                 Inr (PRef 19))],
       snapshots :=
         [(example_heap @
             [ODict [(''model'', PStr ''a''), (''opts'', PRef 10),
                     (''temperature'', PFloat (1 / 2))],
              ODict [],
              OInst CTestConfig [(''executor_config'', PRef 14), (''metric_config'', PRef 15)]],
           example_heap @
             [ODict [(''model'', PStr ''a''), (''opts'', PRef 10),
                     (''temperature'', PFloat (1 / 2))],
              ODict [],
              OInst CTestConfig [(''executor_config'', PRef 14), (''metric_config'', PRef 15)]]),
          (example_heap @
             [ODict [(''model'', PStr ''a''), (''opts'', PRef 10),
                     (''temperature'', PFloat (1 / 2))],
              ODict [],
              OInst CTestConfig [(''executor_config'', PRef 14), (''metric_config'', PRef 15)]],
           example_heap @
             [ODict [(''model'', PStr ''a''), (''opts'', PRef 10),
                     (''temperature'', PFloat (1 / 2))],
              ODict [],
              OInst CTestConfig [(''executor_config'', PRef 14), (''metric_config'', PRef 15)],
              ODict [], ODict [],
              OInst CMetricOutput
                [(''score'', PFloat 1), (''status'', PEnum PASSED), (''visualization'', PNone),
                 (''details'', PRef 17), (''threshold'', PRef 18)]])]\<rparr>)"
  by (simp add: run_steps bindE_merge_eq [where s = example_state, simplified, OF example_fields]
      dict_update_def)

lemma unchanged_on_MetricOutput:
  "const_evaluate args s = (r, t) \<Longrightarrow> unchanged_on A s t"
  by (rule unchanged_on_append [of _ _ "[ODict [], ODict [], OInst CMetricOutput
         [(''score'', PFloat 1), (''status'', PEnum PASSED), (''visualization'', PNone),
          (''details'', PRef (length (heap s))), (''threshold'', PRef (Suc (length (heap s))))]]"])
    (auto simp: const_evaluate_def MetricOutput_new_eq)

lemma unchanged_on_echo: "echo_execute args s = (r, t) \<Longrightarrow> unchanged_on A s t"
  by (rule unchanged_on_heap_eq)
    (auto simp: echo_execute_def returnE_def raiseE_def split: list.splits pyval.splits)

lemma example_leaves_alone: "leaves_alone example_env A"
  unfolding leaves_alone_def
proof (intro allI impI)
  fix c name m args s r s'
  assume o: "own_method example_env c name = Some m" and m: "m args s = (r, s')"
  from o have "m = echo_execute \<or> m = const_evaluate \<or> m = PromptExecutorBase_execute \<or>
      m = MetricEvaluatorBase_evaluate"
    by (cases c) (auto simp: own_method_def example_classes_def split: if_splits)
  with m show "unchanged_on A s s'"
    by (auto simp: unchanged_on_MetricOutput unchanged_on_echo PromptExecutorBase_execute_def
        MetricEvaluatorBase_evaluate_def raiseE_def split: list.splits)
qed

section \<open>The abstract collaborators\<close>

text \<open>
  Claim C8. Calling \<open>execute(input_data, config)\<close> on an executor whose class does not
  override it, or \<open>evaluate(executor, input_data, base_output, executor_config,
  test_config, evaluation_params)\<close> on an evaluator whose class does not override it,
  raises NotImplementedError whatever the values of the arguments, and leaves the state
  (heap, clock, call log and snapshots) exactly as it was. The first two conjuncts are
  the two base methods themselves, applied to \<open>self\<close> and their two or six arguments;
  the last two go through method resolution, for the base classes and for every
  subclass that inherits the method. A call with another number of arguments does not
  reach the body of the method.
\<close>

theorem abstract_methods_raise_NotImplementedError:
  "PromptExecutorBase_execute [self, input_data, config] s = (Inl NotImplementedError, s) \<and>
   MetricEvaluatorBase_evaluate
     [self, executor, x, base_output, executor_config, test_config, evaluation_params] s
     = (Inl NotImplementedError, s) \<and>
   (not_overridden E (class_of (heap s) v) CPromptExecutorBase ''execute'' \<longrightarrow>
      call_method E v ''execute'' [input_data, config] s = (Inl NotImplementedError, s)) \<and>
   (not_overridden E (class_of (heap s) v) CMetricEvaluatorBase ''evaluate'' \<longrightarrow>
      call_method E v ''evaluate''
        [executor, x, base_output, executor_config, test_config, evaluation_params] s
        = (Inl NotImplementedError, s))"
  by (simp add: call_method_not_overridden own_method_def PromptExecutorBase_execute_def
      MetricEvaluatorBase_evaluate_def raiseE_def)

theorem abstract_methods_witness:
  "not_overridden example_env (class_of (heap example_state) (PRef 11))
     CPromptExecutorBase ''execute'' \<and>
   call_method example_env (PRef 11) ''execute'' [PStr ''hello'', PRef 0] example_state
     = (Inl NotImplementedError, example_state) \<and>
   not_overridden example_env (class_of (heap example_state) (PRef 12))
     CMetricEvaluatorBase ''evaluate'' \<and>
   call_method example_env (PRef 12) ''evaluate''
     [PRef 11, PStr ''hello'', PStr ''ECHO:hello'', PRef 0, PRef 1, PRef 13] example_state
     = (Inl NotImplementedError, example_state)"
proof -
  have a: "not_overridden example_env (class_of (heap example_state) (PRef 11))
     CPromptExecutorBase ''execute''"
    by (simp add: not_overridden_def)
  have b: "not_overridden example_env (class_of (heap example_state) (PRef 12))
     CMetricEvaluatorBase ''evaluate''"
    by (simp add: not_overridden_def)
  from a b
    abstract_methods_raise_NotImplementedError
      [where s = example_state and E = example_env and v = "PRef 11"
         and input_data = "PStr ''hello''" and config = "PRef 0"]
    abstract_methods_raise_NotImplementedError
      [where s = example_state and E = example_env and v = "PRef 12"
         and executor = "PRef 11" and x = "PStr ''hello''" and base_output = "PStr ''ECHO:hello''"
         and executor_config = "PRef 0" and test_config = "PRef 1"
         and evaluation_params = "PRef 13"]
  show ?thesis by simp
qed

text \<open>
  Claim C6. \<open>PromptExecutorBase(v)\<close> returns a new executor holding \<open>v\<close> as its
  \<open>config_schema\<close> when \<open>v\<close> is a dictionary (an instance of \<open>dict\<close>) and raises
  ValueError for every other value; \<open>MetricEvaluatorBase(v)\<close> does the same with its
  \<open>config\<close>. The instance is built before the check, so the heap holds it either way.
\<close>

theorem base_constructors_require_dict:
  "PromptExecutorBase_new E v s =
     (if is_instance E (heap s) v CDict then Inr (PRef (length (heap s)))
      else Inl (ValueError ''Config schema must be a dictionary''),
      s\<lparr>heap := heap s @ [OInst CPromptExecutorBase [(''config_schema'', v)]]\<rparr>) \<and>
   MetricEvaluatorBase_new E v s =
     (if is_instance E (heap s) v CDict then Inr (PRef (length (heap s)))
      else Inl (ValueError ''Config must be a dictionary''),
      s\<lparr>heap := heap s @ [OInst CMetricEvaluatorBase [(''config'', v)]]\<rparr>)"
  by (simp only: PromptExecutorBase_new_eq MetricEvaluatorBase_new_eq simp_thms)

theorem base_constructors_witness:
  "fst (PromptExecutorBase_new example_env (PRef 0) example_state) = Inr (PRef 14) \<and>
   fst (MetricEvaluatorBase_new example_env (PRef 1) example_state) = Inr (PRef 14) \<and>
   fst (PromptExecutorBase_new example_env (PInt 3) example_state)
     = Inl (ValueError ''Config schema must be a dictionary'') \<and>
   fst (MetricEvaluatorBase_new example_env PNone example_state)
     = Inl (ValueError ''Config must be a dictionary'')"
  using base_constructors_require_dict [of example_env "PRef 0" example_state]
    base_constructors_require_dict [of example_env "PRef 1" example_state]
    base_constructors_require_dict [of example_env "PInt 3" example_state]
    base_constructors_require_dict [of example_env PNone example_state]
  by (simp add: is_instance_def)

section \<open>The metric record\<close>

text \<open>
  Claim C4, as stated: no \<open>MetricOutput\<close> with a score outside the interval from 0 to 1
  can be constructed. It fails: \<open>MetricOutput(score=2.0, status=MetricStatus.PASSED,
  visualization=None, details={}, threshold={})\<close> returns a record whose score is 2.
\<close>

theorem MetricOutput_out_of_range_counterexample:
  "fst (MetricOutput_new (PFloat 2) (PEnum PASSED) PNone (PRef 1) (PRef 4) example_state)
     = Inr (PRef 14) \<and>
   attr_of (heap (snd (MetricOutput_new (PFloat 2) (PEnum PASSED) PNone (PRef 1) (PRef 4)
     example_state))) (PRef 14) ''score'' = Some (PFloat 2) \<and>
   \<not> in_unit_interval (PFloat 2)"
  using attr_of_last [of example_heap CMetricOutput _ "''score''"]
  by (simp add: MetricOutput_new_eq in_unit_interval_def)

text \<open>
  Claim C4, amended. \<open>MetricStatus\<close> has exactly the four members PASSED, WARNING,
  FAILED and INCONCLUSIVE, and constructing a \<open>MetricOutput\<close> always succeeds and stores
  the five given values unchanged in a new record: its score lies between 0 and 1
  exactly when the given score does, and its status is a member of the enumeration
  exactly when the given status is. Nothing is checked.
\<close>

theorem MetricOutput_new_stores_fields:
  "\<exists>s'. MetricOutput_new score status visualization details threshold s
           = (Inr (PRef (length (heap s))), s') \<and>
         class_of (heap s') (PRef (length (heap s))) = CMetricOutput \<and>
         attr_of (heap s') (PRef (length (heap s))) ''score'' = Some score \<and>
         attr_of (heap s') (PRef (length (heap s))) ''status'' = Some status \<and>
         attr_of (heap s') (PRef (length (heap s))) ''visualization'' = Some visualization \<and>
         attr_of (heap s') (PRef (length (heap s))) ''details'' = Some details \<and>
         attr_of (heap s') (PRef (length (heap s))) ''threshold'' = Some threshold \<and>
         (\<forall>m. m \<in> {PASSED, WARNING, FAILED, INCONCLUSIVE})"
proof -
  have "m \<in> {PASSED, WARNING, FAILED, INCONCLUSIVE}" for m
    by (cases m) simp_all
  then show ?thesis
    by (simp add: MetricOutput_new_eq)
qed

theorem MetricOutput_new_witness:
  "\<exists>s'. MetricOutput_new (PFloat 1) (PEnum PASSED) PNone (PRef 1) (PRef 4) example_state
           = (Inr (PRef 14), s') \<and>
         attr_of (heap s') (PRef 14) ''score'' = Some (PFloat 1) \<and>
         attr_of (heap s') (PRef 14) ''status'' = Some (PEnum PASSED) \<and>
         in_unit_interval (PFloat 1)"
  using MetricOutput_new_stores_fields
    [of "PFloat 1" "PEnum PASSED" PNone "PRef 1" "PRef 4" example_state]
  by (auto simp: in_unit_interval_def)

section \<open>The runner's constructor\<close>

text \<open>
  Claim C7. \<open>TestRunner(executor, evaluator, config)\<close> raises ValueError when the
  executor is not an instance of \<open>PromptExecutorBase\<close>, when the evaluator is not an
  instance of \<open>MetricEvaluatorBase\<close>, or when the configuration is not an instance of
  \<open>TestConfig\<close> (checked in this order); when all three are, it returns a new runner
  whose attributes \<open>executor\<close>, \<open>evaluator\<close> and \<open>config\<close> are exactly the three values.
\<close>

theorem TestRunner_new_validates:
  "TestRunner_new E ex ev cfg s =
     (if \<not> is_instance E (heap s) ex CPromptExecutorBase
      then Inl (ValueError ''Executor must be an instance of PromptExecutorBase'')
      else if \<not> is_instance E (heap s) ev CMetricEvaluatorBase
      then Inl (ValueError ''Evaluator must be an instance of MetricEvaluatorBase'')
      else if \<not> is_instance E (heap s) cfg CTestConfig
      then Inl (ValueError ''Config must be an instance of TestConfig'')
      else Inr (PRef (length (heap s))),
      s\<lparr>heap := heap s @ [OInst CTestRunner
         [(''executor'', ex), (''evaluator'', ev), (''config'', cfg)]]\<rparr>)"
  by (rule TestRunner_new_eq)

theorem TestRunner_new_witness:
  "TestRunner_new example_env (PRef 6) (PRef 7) (PRef 2) example_state =
     (Inr (PRef 14),
      example_state\<lparr>heap := example_heap @ [OInst CTestRunner
         [(''executor'', PRef 6), (''evaluator'', PRef 7), (''config'', PRef 2)]]\<rparr>) \<and>
   fst (TestRunner_new example_env (PRef 7) (PRef 7) (PRef 2) example_state)
     = Inl (ValueError ''Executor must be an instance of PromptExecutorBase'') \<and>
   fst (TestRunner_new example_env (PRef 6) (PStr ''x'') (PRef 2) example_state)
     = Inl (ValueError ''Evaluator must be an instance of MetricEvaluatorBase'') \<and>
   fst (TestRunner_new example_env (PRef 6) (PRef 7) (PRef 0) example_state)
     = Inl (ValueError ''Config must be an instance of TestConfig'')"
  using TestRunner_new_validates [of example_env "PRef 6" "PRef 7" "PRef 2" example_state]
    TestRunner_new_validates [of example_env "PRef 7" "PRef 7" "PRef 2" example_state]
    TestRunner_new_validates [of example_env "PRef 6" "PStr ''x''" "PRef 2" example_state]
    TestRunner_new_validates [of example_env "PRef 6" "PRef 7" "PRef 0" example_state]
  by (simp add: is_instance_def)

section \<open>Schema validation\<close>




section \<open>Merging configurations\<close>

text \<open>
  Claim C1. For a base and an override that are \<open>TestConfig\<close> values (instances whose
  two fields refer to dictionaries with distinct keys), \<open>_merge_configs\<close> returns a
  \<open>TestConfig\<close> whose \<open>executor_config\<close> has as keys exactly those of the base's and the
  override's, each key bound to the override's value when the override has the key and
  to the base's value otherwise; the same holds, independently, for \<open>metric_config\<close>.
  The merge is shallow: the value under a colliding key is the override's value itself
  (for a nested dictionary, the reference to the override's object), and every object
  that existed before the call, nested dictionaries included, is unchanged. A run of a
  runner bound to the base, with the override supplied, records this merged
  configuration as \<open>configs_used\<close> and hands its \<open>executor_config\<close> to the executor.
\<close>

theorem merge_configs_union:
  assumes b: "TestConfig_fields (heap s) base = Some (be, bm)"
    and ov: "TestConfig_fields (heap s) override = Some (oe, om)"
    and d: "distinct_keys be" "distinct_keys bm" "distinct_keys oe" "distinct_keys om"
  shows "\<exists>eff s1 ec me mm.
           TestRunner_merge_configs self base override s = (Inr eff, s1) \<and>
           TestConfig_fields (heap s1) eff = Some (me, mm) \<and>
           attr_of (heap s1) eff ''executor_config'' = Some ec \<and>
           distinct_keys me \<and> fst ` set me = fst ` set be \<union> fst ` set oe \<and>
           (\<forall>k. map_of me k = (case map_of oe k of Some v \<Rightarrow> Some v | None \<Rightarrow> map_of be k)) \<and>
           distinct_keys mm \<and> fst ` set mm = fst ` set bm \<union> fst ` set om \<and>
           (\<forall>k. map_of mm k = (case map_of om k of Some v \<Rightarrow> Some v | None \<Rightarrow> map_of bm k)) \<and>
           (\<forall>a<length (heap s). obj_at (heap s1) a = obj_at (heap s) a) \<and>
           (\<forall>E input_data evaluation_params res s'.
              attr_of (heap s) self ''config'' = Some base \<and>
              TestRunner_run E self input_data evaluation_params override s = (Inr res, s')
              \<longrightarrow>
              attr_of (heap s') res ''configs_used'' = Some eff \<and>
              (\<exists>executor out.
                 (''execute'', [executor, input_data, ec], Inr out) \<in> set (calls s')))"
proof -
  let ?n = "length (heap s)"
  let ?me = "dict_update (dict_update [] be) oe"
  let ?mm = "dict_update (dict_update [] bm) om"
  let ?s1 = "s\<lparr>heap := heap s @ [ODict ?me, ODict ?mm,
     OInst CTestConfig [(''executor_config'', PRef ?n), (''metric_config'', PRef (?n + 1))]]\<rparr>"
  let ?eff = "PRef (?n + 2)"
  have m: "TestRunner_merge_configs self base override s = (Inr ?eff, ?s1)"
    using b ov by (rule merge_configs_eq)
  have f: "TestConfig_fields (heap ?s1) ?eff = Some (?me, ?mm)"
    using TestConfig_fields_new [of "heap s @ [ODict ?me, ODict ?mm]" ?n ?me "?n + 1" ?mm]
    by (simp add: dict_of_def obj_at_def nth_append)
  have a: "attr_of (heap ?s1) ?eff ''executor_config'' = Some (PRef ?n)"
    using attr_of_last [of "heap s @ [ODict ?me, ODict ?mm]" CTestConfig _ "''executor_config''"]
    by simp
  have old: "\<forall>a<?n. obj_at (heap ?s1) a = obj_at (heap s) a"
    by simp
  have run: "attr_of (heap s') res ''configs_used'' = Some ?eff \<and>
      (\<exists>executor out. (''execute'', [executor, input_data, PRef ?n], Inr out) \<in> set (calls s'))"
    if c: "attr_of (heap s) self ''config'' = Some base"
      and r: "TestRunner_run E self input_data evaluation_params override s = (Inr res, s')"
    for E input_data evaluation_params res s'
  proof (rule run_InrE [OF r], goal_cases)
    case (1 config eff s1 executor execute ec out t2 evaluator evaluate executor_arg
      executor_config test_config params s3 mr t4 metadata timestamp)
    from 1(1) c have "config = base" by simp
    with 1(2) m have e: "eff = ?eff" "s1 = ?s1" by simp_all
    with 1(5) a have "ec = PRef ?n" by simp
    with 1(18) have "(''execute'', [executor, input_data, PRef ?n], Inr out) \<in> set (calls s')"
      by simp
    moreover from 1(16,17) e have "attr_of (heap s') res ''configs_used'' = Some ?eff"
      by (simp add: result_attrs)
    ultimately show ?case
      by (intro conjI exI [of _ executor] exI [of _ out])
  qed
  show ?thesis
  proof (intro exI conjI)
    show "TestRunner_merge_configs self base override s = (Inr ?eff, ?s1)" by (rule m)
    show "TestConfig_fields (heap ?s1) ?eff = Some (?me, ?mm)" by (rule f)
    show "attr_of (heap ?s1) ?eff ''executor_config'' = Some (PRef ?n)" by (rule a)
    show "distinct_keys ?me" "distinct_keys ?mm" by (rule display_distinct)+
    show "fst ` set ?me = fst ` set be \<union> fst ` set oe"
      "fst ` set ?mm = fst ` set bm \<union> fst ` set om" by (rule display_keys)+
    show "\<forall>k. map_of ?me k = (case map_of oe k of Some v \<Rightarrow> Some v | None \<Rightarrow> map_of be k)"
      using d by (simp add: display_lookup)
    show "\<forall>k. map_of ?mm k = (case map_of om k of Some v \<Rightarrow> Some v | None \<Rightarrow> map_of bm k)"
      using d by (simp add: display_lookup)
    show "\<forall>a<?n. obj_at (heap ?s1) a = obj_at (heap s) a" by (rule old)
    show "\<forall>E input_data evaluation_params res s'.
              attr_of (heap s) self ''config'' = Some base \<and>
              TestRunner_run E self input_data evaluation_params override s = (Inr res, s')
              \<longrightarrow>
              attr_of (heap s') res ''configs_used'' = Some ?eff \<and>
              (\<exists>executor out.
                 (''execute'', [executor, input_data, PRef ?n], Inr out) \<in> set (calls s'))"
      by (intro allI impI, elim conjE, rule run)
  qed
qed

theorem merge_configs_union_witness:
  "TestConfig_fields (heap example_state) (PRef 2)
     = Some ([(''model'', PStr ''a''), (''opts'', PRef 9)], []) \<and>
   TestConfig_fields (heap example_state) (PRef 5)
     = Some ([(''temperature'', PFloat (1 / 2)), (''opts'', PRef 10)], []) \<and>
   distinct_keys [(''model'', PStr ''a''), (''opts'', PRef 9)] \<and>
   distinct_keys [(''temperature'', PFloat (1 / 2)), (''opts'', PRef 10)] \<and>
   distinct_keys [] \<and>
   fst (TestRunner_merge_configs (PRef 8) (PRef 2) (PRef 5) example_state) = Inr (PRef 16) \<and>
   (\<exists>me mm.
      TestConfig_fields
        (heap (snd (TestRunner_merge_configs (PRef 8) (PRef 2) (PRef 5) example_state)))
        (PRef 16) = Some (me, mm) \<and>
      fst ` set me = {''model'', ''opts'', ''temperature''} \<and>
      map_of me ''model'' = Some (PStr ''a'') \<and>
      map_of me ''opts'' = Some (PRef 10) \<and>
      map_of me ''temperature'' = Some (PFloat (1 / 2)) \<and>
      fst ` set mm = {}) \<and>
   obj_at (heap (snd (TestRunner_merge_configs (PRef 8) (PRef 2) (PRef 5) example_state))) 9
     = ODict [(''x'', PInt 1), (''y'', PInt 2)] \<and>
   obj_at (heap (snd (TestRunner_merge_configs (PRef 8) (PRef 2) (PRef 5) example_state))) 10
     = ODict [(''x'', PInt 5)]"
proof -
  note f = example_fields [simplified example_state_sel(1) [symmetric]]
  from merge_configs_union [OF f example_distinct(1) example_distinct(3) example_distinct(2)
      example_distinct(3), of "PRef 8"]
  obtain eff s1 ec me mm
    where m: "TestRunner_merge_configs (PRef 8) (PRef 2) (PRef 5) example_state = (Inr eff, s1)"
      and t: "TestConfig_fields (heap s1) eff = Some (me, mm)"
      and k: "fst ` set me = fst ` set [(''model'', PStr ''a''), (''opts'', PRef 9)] \<union>
                fst ` set [(''temperature'', PFloat (1 / 2)), (''opts'', PRef 10)]"
        "\<forall>k. map_of me k =
           (case map_of [(''temperature'', PFloat (1 / 2)), (''opts'', PRef 10)] k of
              Some v \<Rightarrow> Some v
            | None \<Rightarrow> map_of [(''model'', PStr ''a''), (''opts'', PRef 9)] k)"
        "fst ` set mm = fst ` set ([] :: items) \<union> fst ` set ([] :: items)"
      and old: "\<forall>a<length (heap example_state). obj_at (heap s1) a = obj_at (heap example_state) a"
    by (elim exE conjE)
  have e: "fst (TestRunner_merge_configs (PRef 8) (PRef 2) (PRef 5) example_state)
      = Inr (PRef 16)"
    by (simp add: merge_configs_eq [of example_state, simplified, OF example_fields])
  with m have eff: "eff = PRef 16" by simp
  from m have s1: "snd (TestRunner_merge_configs (PRef 8) (PRef 2) (PRef 5) example_state) = s1"
    by simp
  from k(1) have k1: "fst ` set me = {''model'', ''opts'', ''temperature''}" by auto
  from k(2) have k2: "map_of me ''model'' = Some (PStr ''a'')"
    "map_of me ''opts'' = Some (PRef 10)" "map_of me ''temperature'' = Some (PFloat (1 / 2))"
    by simp_all
  from k(3) have k3: "fst ` set mm = {}" by simp
  from old have o: "obj_at (heap s1) 9 = ODict [(''x'', PInt 1), (''y'', PInt 2)]"
    "obj_at (heap s1) 10 = ODict [(''x'', PInt 5)]"
    by simp_all
  from t eff k1 k2 k3 have ex: "\<exists>me mm. TestConfig_fields (heap s1) (PRef 16) = Some (me, mm) \<and>
      fst ` set me = {''model'', ''opts'', ''temperature''} \<and>
      map_of me ''model'' = Some (PStr ''a'') \<and>
      map_of me ''opts'' = Some (PRef 10) \<and>
      map_of me ''temperature'' = Some (PFloat (1 / 2)) \<and>
      fst ` set mm = {}"
    by (intro exI [of _ me] exI [of _ mm]) simp
  show ?thesis
    unfolding s1 using f example_distinct e ex o by (intro conjI)
qed

text \<open>
  Claim C9. For a base and an override that are \<open>TestConfig\<close> values, \<open>_merge_configs\<close>
  returns a new instance: its address, and those of its two dictionaries, were not
  allocated before the call, so it is neither the base nor the override. Every object
  allocated before the call is unchanged by it; in particular the base and the override
  hold the keys and values they held. A whole \<open>run\<close> with the override supplied,
  whatever its outcome, logs calls of \<open>execute\<close> and \<open>evaluate\<close> only, and the base and
  the override hold the keys and values they held provided each call this run logged left
  the two configurations and their dictionaries as they were: nothing is asked of any
  other call, method or state.
\<close>

theorem merge_leaves_originals_unchanged:
  assumes b: "TestConfig_fields (heap s) base = Some b"
    and ov: "TestConfig_fields (heap s) override = Some c"
  shows "\<exists>a e m s1.
           TestRunner_merge_configs self base override s = (Inr (PRef a), s1) \<and>
           length (heap s) \<le> a \<and> PRef a \<noteq> base \<and> PRef a \<noteq> override \<and>
           class_of (heap s1) (PRef a) = CTestConfig \<and>
           attr_of (heap s1) (PRef a) ''executor_config'' = Some (PRef e) \<and>
           length (heap s) \<le> e \<and>
           attr_of (heap s1) (PRef a) ''metric_config'' = Some (PRef m) \<and>
           length (heap s) \<le> m \<and>
           unchanged_on UNIV s s1 \<and>
           TestConfig_fields (heap s1) base = Some b \<and>
           TestConfig_fields (heap s1) override = Some c \<and>
           (\<forall>E input_data evaluation_params r s'.
              TestRunner_run E self input_data evaluation_params override s = (r, s')
              \<longrightarrow>
              (\<exists>nc ns.
                 calls s' = calls s @ nc \<and> snapshots s' = snapshots s @ ns \<and>
                 length ns = length nc \<and> list_all collaborator_call nc \<and>
                 (list_all
                    (untouched
                       (TestConfig_addrs (heap s) base \<union> TestConfig_addrs (heap s) override))
                    ns \<longrightarrow>
                  TestConfig_fields (heap s') base = Some b \<and>
                  TestConfig_fields (heap s') override = Some c)))"
proof -
  obtain be bm where bb: "b = (be, bm)" by (cases b)
  obtain oe om where cc: "c = (oe, om)" by (cases c)
  let ?n = "length (heap s)"
  let ?me = "dict_update (dict_update [] be) oe"
  let ?mm = "dict_update (dict_update [] bm) om"
  let ?s1 = "s\<lparr>heap := heap s @ [ODict ?me, ODict ?mm,
     OInst CTestConfig [(''executor_config'', PRef ?n), (''metric_config'', PRef (?n + 1))]]\<rparr>"
  have m: "TestRunner_merge_configs self base override s = (Inr (PRef (?n + 2)), ?s1)"
    using b ov unfolding bb cc by (rule merge_configs_eq)
  from b obtain ab where ab: "base = PRef ab" "ab < ?n"
    unfolding bb by (rule TestConfig_fieldsD)
  from ov obtain ao where ao: "override = PRef ao" "ao < ?n"
    unfolding cc by (rule TestConfig_fieldsD)
  have u: "unchanged_on A s ?s1" for A
    by (rule unchanged_on_append [of _ _ "[ODict ?me, ODict ?mm,
     OInst CTestConfig [(''executor_config'', PRef ?n), (''metric_config'', PRef (?n + 1))]]"])
      simp
  have cl: "class_of (heap ?s1) (PRef (?n + 2)) = CTestConfig"
    by (simp add: obj_at_def nth_append)
  have run: "\<exists>nc ns.
      calls s' = calls s @ nc \<and> snapshots s' = snapshots s @ ns \<and>
      length ns = length nc \<and> list_all collaborator_call nc \<and>
      (list_all
         (untouched (TestConfig_addrs (heap s) base \<union> TestConfig_addrs (heap s) override))
         ns \<longrightarrow>
       TestConfig_fields (heap s') base = Some b \<and>
       TestConfig_fields (heap s') override = Some c)"
    if r: "TestRunner_run E self input_data evaluation_params override s = (r, s')"
    for E input_data evaluation_params r s'
  proof -
    let ?A = "TestConfig_addrs (heap s) base \<union> TestConfig_addrs (heap s) override"
    from r obtain nc ns where n: "calls s' = calls s @ nc" "snapshots s' = snapshots s @ ns"
      "length ns = length nc" "list_all collaborator_call nc"
      and u: "list_all (untouched ?A) ns \<longrightarrow> unchanged_on ?A s s'"
      by (rule run_log [where A = ?A])
    have k: "TestConfig_fields (heap s') base = Some b \<and>
        TestConfig_fields (heap s') override = Some c"
      if "list_all (untouched ?A) ns"
    proof -
      from that u have "unchanged_on ?A s s'" by simp
      then have u1: "unchanged_on (TestConfig_addrs (heap s) base) s s'"
        and u2: "unchanged_on (TestConfig_addrs (heap s) override) s s'"
        by (rule unchanged_on_subset, simp)+
      from b u1 have "TestConfig_fields (heap s') base = Some b"
        by (rule TestConfig_fields_unchanged)
      moreover from ov u2 have "TestConfig_fields (heap s') override = Some c"
        by (rule TestConfig_fields_unchanged)
      ultimately show ?thesis by (rule conjI)
    qed
    from n k have "calls s' = calls s @ nc \<and> snapshots s' = snapshots s @ ns \<and>
      length ns = length nc \<and> list_all collaborator_call nc \<and>
      (list_all (untouched ?A) ns \<longrightarrow>
       TestConfig_fields (heap s') base = Some b \<and>
       TestConfig_fields (heap s') override = Some c)"
      by simp
    then show ?thesis by (intro exI)
  qed
  show ?thesis
  proof (intro exI conjI)
    show "TestRunner_merge_configs self base override s = (Inr (PRef (?n + 2)), ?s1)"
      by (rule m)
    show "?n \<le> ?n + 2" "?n \<le> ?n" "?n \<le> ?n + 1" by simp_all
    show "PRef (?n + 2) \<noteq> base" "PRef (?n + 2) \<noteq> override" using ab ao by simp_all
    show "class_of (heap ?s1) (PRef (?n + 2)) = CTestConfig" by (rule cl)
    show "attr_of (heap ?s1) (PRef (?n + 2)) ''executor_config'' = Some (PRef ?n)"
      by (simp add: attr_of_def obj_at_def nth_append)
    show "attr_of (heap ?s1) (PRef (?n + 2)) ''metric_config'' = Some (PRef (?n + 1))"
      by (simp add: attr_of_def obj_at_def nth_append)
    show "unchanged_on UNIV s ?s1" by (rule u)
    show "TestConfig_fields (heap ?s1) base = Some b" using b u
      by (rule TestConfig_fields_unchanged)
    show "TestConfig_fields (heap ?s1) override = Some c" using ov u
      by (rule TestConfig_fields_unchanged)
    show "(\<forall>E input_data evaluation_params r s'.
                TestRunner_run E self input_data evaluation_params override s = (r, s')
                \<longrightarrow>
                (\<exists>nc ns.
                   calls s' = calls s @ nc \<and> snapshots s' = snapshots s @ ns \<and>
                   length ns = length nc \<and> list_all collaborator_call nc \<and>
                   (list_all
                      (untouched
                         (TestConfig_addrs (heap s) base \<union> TestConfig_addrs (heap s) override))
                      ns \<longrightarrow>
                    TestConfig_fields (heap s') base = Some b \<and>
                    TestConfig_fields (heap s') override = Some c)))"
      by (intro allI impI, rule run)
  qed
qed

theorem merge_leaves_originals_witness:
  "TestConfig_fields (heap example_state) (PRef 2)
     = Some ([(''model'', PStr ''a''), (''opts'', PRef 9)], []) \<and>
   TestConfig_fields (heap example_state) (PRef 5)
     = Some ([(''temperature'', PFloat (1 / 2)), (''opts'', PRef 10)], []) \<and>
   fst (TestRunner_merge_configs (PRef 8) (PRef 2) (PRef 5) example_state) = Inr (PRef 16) \<and>
   TestConfig_fields
     (heap (snd (TestRunner_merge_configs (PRef 8) (PRef 2) (PRef 5) example_state))) (PRef 2)
     = Some ([(''model'', PStr ''a''), (''opts'', PRef 9)], []) \<and>
   TestConfig_fields
     (heap (snd (TestRunner_merge_configs (PRef 8) (PRef 2) (PRef 5) example_state))) (PRef 5)
     = Some ([(''temperature'', PFloat (1 / 2)), (''opts'', PRef 10)], []) \<and>
   length (snapshots (snd (TestRunner_run example_env (PRef 8) (PStr ''hello'') (PRef 13)
     (PRef 5) example_state))) = 2 \<and>
   list_all
     (untouched
        (TestConfig_addrs (heap example_state) (PRef 2) \<union>
         TestConfig_addrs (heap example_state) (PRef 5)))
     (snapshots (snd (TestRunner_run example_env (PRef 8) (PStr ''hello'') (PRef 13) (PRef 5)
        example_state))) \<and>
   TestConfig_fields
     (heap (snd (TestRunner_run example_env (PRef 8) (PStr ''hello'') (PRef 13) (PRef 5)
        example_state))) (PRef 2)
     = Some ([(''model'', PStr ''a''), (''opts'', PRef 9)], []) \<and>
   TestConfig_fields
     (heap (snd (TestRunner_run example_env (PRef 8) (PStr ''hello'') (PRef 13) (PRef 5)
        example_state))) (PRef 5)
     = Some ([(''temperature'', PFloat (1 / 2)), (''opts'', PRef 10)], [])"
proof -
  let ?A = "TestConfig_addrs (heap example_state) (PRef 2) \<union>
      TestConfig_addrs (heap example_state) (PRef 5)"
  let ?run = "TestRunner_run example_env (PRef 8) (PStr ''hello'') (PRef 13) (PRef 5)
      example_state"
  note f = example_fields [simplified example_state_sel(1) [symmetric]]
  have A: "?A = {0, 1, 2, 3, 4, 5}"
    by (auto simp: TestConfig_addrs_def ref_addrs_def attr_of_def)
  have l: "list_all (untouched ?A) (snapshots (snd ?run))"
    unfolding A by (simp add: example_run_override untouched_def nth_append)
  have n: "length (snapshots (snd ?run)) = 2"
    by (simp add: example_run_override)
  from merge_leaves_originals_unchanged [OF f, of "PRef 8"]
  obtain a e m s1 where m: "TestRunner_merge_configs (PRef 8) (PRef 2) (PRef 5) example_state
        = (Inr (PRef a), s1)"
    and k: "TestConfig_fields (heap s1) (PRef 2)
        = Some ([(''model'', PStr ''a''), (''opts'', PRef 9)], [])"
      "TestConfig_fields (heap s1) (PRef 5)
        = Some ([(''temperature'', PFloat (1 / 2)), (''opts'', PRef 10)], [])"
    and r: "\<forall>E input_data evaluation_params r s'.
       TestRunner_run E (PRef 8) input_data evaluation_params (PRef 5) example_state = (r, s')
       \<longrightarrow>
       (\<exists>nc ns.
          calls s' = calls example_state @ nc \<and>
          snapshots s' = snapshots example_state @ ns \<and>
          length ns = length nc \<and> list_all collaborator_call nc \<and>
          (list_all (untouched ?A) ns \<longrightarrow>
           TestConfig_fields (heap s') (PRef 2)
             = Some ([(''model'', PStr ''a''), (''opts'', PRef 9)], []) \<and>
           TestConfig_fields (heap s') (PRef 5)
             = Some ([(''temperature'', PFloat (1 / 2)), (''opts'', PRef 10)], [])))"
    by (elim exE conjE)
  from m have a: "a = 16"
    by (simp add: merge_configs_eq [of example_state, simplified, OF example_fields])
  have e: "?run = (fst ?run, snd ?run)" by simp
  from r [rule_format, OF e]
  obtain nc ns where "calls (snd ?run) = calls example_state @ nc"
    and ns: "snapshots (snd ?run) = snapshots example_state @ ns"
    and i: "list_all (untouched ?A) ns \<longrightarrow>
      TestConfig_fields (heap (snd ?run)) (PRef 2)
        = Some ([(''model'', PStr ''a''), (''opts'', PRef 9)], []) \<and>
      TestConfig_fields (heap (snd ?run)) (PRef 5)
        = Some ([(''temperature'', PFloat (1 / 2)), (''opts'', PRef 10)], [])"
    by (elim exE conjE)
  from ns have "ns = snapshots (snd ?run)" by simp
  with i l have "TestConfig_fields (heap (snd ?run)) (PRef 2)
        = Some ([(''model'', PStr ''a''), (''opts'', PRef 9)], []) \<and>
      TestConfig_fields (heap (snd ?run)) (PRef 5)
        = Some ([(''temperature'', PFloat (1 / 2)), (''opts'', PRef 10)], [])"
    by simp
  with f m k a l n show ?thesis by simp
qed

section \<open>Running a test\<close>


text \<open>
  Claim C2. When \<open>run\<close> is called with \<open>override_config=None\<close> and returns, the
  \<open>configs_used\<close> field of the result is the very \<open>TestConfig\<close> object bound to the
  runner as \<open>config\<close>: no copy is made, so no key is added, removed or changed by the
  runner. If moreover the collaborators' methods do not write to that configuration or
  its two dictionaries, its contents after the run are those before it.
\<close>

theorem run_without_override_uses_base_config:
  assumes "TestRunner_run E self input_data evaluation_params PNone s = (Inr res, s')"
  shows "\<exists>base. attr_of (heap s) self ''config'' = Some base \<and>
           attr_of (heap s') res ''configs_used'' = Some base \<and>
           (\<forall>b. TestConfig_fields (heap s) base = Some b \<and>
                leaves_alone E (TestConfig_addrs (heap s) base) \<longrightarrow>
                TestConfig_fields (heap s') base = Some b)"
proof (rule run_InrE [OF assms], goal_cases)
  case (1 config eff s1 executor execute ec out t2 evaluator evaluate executor_arg
      executor_config test_config params s3 mr t4 metadata timestamp)
  from 1(2) have "eff = config" by (simp add: merge_configs_None)
  with 1(16,17) have cu: "attr_of (heap s') res ''configs_used'' = Some config"
    by (simp add: result_attrs)
  have "TestConfig_fields (heap s') config = Some b"
    if "TestConfig_fields (heap s) config = Some b"
      and "leaves_alone E (TestConfig_addrs (heap s) config)" for b
  proof -
    from that(2) have "preserves (TestConfig_addrs (heap s) config)
        (TestRunner_run E self input_data evaluation_params PNone)"
      by (rule preserves_run)
    with assms have "unchanged_on (TestConfig_addrs (heap s) config) s s'"
      by (simp add: preservesD)
    with that(1) show ?thesis by (rule TestConfig_fields_unchanged)
  qed
  with 1(1) cu show ?case by blast
qed

theorem run_without_override_witness:
  "fst (TestRunner_run example_env (PRef 8) (PStr ''hello'') PNone PNone example_state)
     = Inr (PRef 19) \<and>
   attr_of (heap example_state) (PRef 8) ''config'' = Some (PRef 2) \<and>
   attr_of (heap (snd (TestRunner_run example_env (PRef 8) (PStr ''hello'') PNone PNone
     example_state))) (PRef 19) ''configs_used'' = Some (PRef 2) \<and>
   TestConfig_fields (heap example_state) (PRef 2)
     = Some ([(''model'', PStr ''a''), (''opts'', PRef 9)], []) \<and>
   TestConfig_fields (heap (snd (TestRunner_run example_env (PRef 8) (PStr ''hello'') PNone
     PNone example_state))) (PRef 2)
     = Some ([(''model'', PStr ''a''), (''opts'', PRef 9)], [])"
  using run_without_override_uses_base_config [OF example_run_default]
    example_leaves_alone [of "TestConfig_addrs (heap example_state) (PRef 2)"]
  by (simp add: example_run_default example_fields attr_of_def)





end
